theory Spec2Isabelle
  imports Complex_Main
begin

section \<open>Values and failures\<close>

text \<open>
  The connector is Python. Every exception the modelled code can raise is a value of
  \<open>'e error\<close>; \<open>'e\<close> is the type of the exceptions the transport
  (\<open>openai.ChatCompletion.acreate\<close> and the chunk iterator it answers with) raises.
  \<open>AIException code message inner\<close> is the connector's own exception with its error
  code, its message and the inner exception handed to it; only the two codes the
  modelled code uses are listed. \<open>Raised ex\<close> is a transport exception that reaches the
  caller as it is.
\<close>

datatype ErrorCodes = InvalidRequest | ServiceError

datatype 'e error =
    ValueError string
  | AIException ErrorCodes string "'e option"
  | IndexError
  | KeyError string
  | AttributeError
  | TypeError
  | Raised 'e

text \<open>Decimal rendering of an integer, as an f-string renders it.\<close>

fun digits :: "nat \<Rightarrow> string" where
  "digits n =
     (if n < 10 then [''0123456789'' ! n]
      else digits (n div 10) @ [''0123456789'' ! (n mod 10)])"

definition str_int :: "int \<Rightarrow> string" where
  "str_int i = (if i < 0 then CHR ''-'' # digits (nat (- i)) else digits (nat i))"

text \<open>
  Item assignment \<open>xs[i] = v\<close> on a Python list: indices from \<open>- len(xs)\<close> up to
  \<open>len(xs) - 1\<close> name a slot (negative ones count from the end), any other raises
  IndexError.
\<close>

definition list_setitem :: "'a list \<Rightarrow> int \<Rightarrow> 'a \<Rightarrow> 'e error + 'a list" where
  "list_setitem xs i v =
     (let n = int (length xs) in
      if 0 \<le> i \<and> i < n then Inr (xs[nat i := v])
      else if - n \<le> i \<and> i < 0 then Inr (xs[nat (n + i) := v])
      else Inl IndexError)"

section \<open>Data model\<close>

text \<open>A conversation message is the tuple (role, content).\<close>

type_synonym chat_message = "string \<times> string"

record OpenAIChatCompletionBase =
  model_id :: string
  api_key :: string
  api_type :: string
  org_id :: "string option"
  api_version :: "string option"
  endpoint :: "string option"

text \<open>
  The two settings classes are declared outside the modelled files; the records hold the
  fields the modelled code reads. Floats are only handed on, never computed with.
\<close>

record ChatRequestSettings =
  temperature :: real
  top_p :: real
  presence_penalty :: real
  frequency_penalty :: real
  max_tokens :: int
  number_of_responses :: int
  token_selection_biases :: "(int \<times> real) list option"
  stop_sequences :: "string list option"

record CompleteRequestSettings =
  temperature :: real
  top_p :: real
  presence_penalty :: real
  frequency_penalty :: real
  max_tokens :: int
  number_of_responses :: int
  token_selection_biases :: "(int \<times> real) list option"
  stop_sequences :: "string list option"

text \<open>
  The keyword arguments of one call of \<open>openai.ChatCompletion.acreate\<close>.
  \<open>model_args\<close> is the dictionary spliced in with \<open>**model_args\<close>; each entry of
  \<open>messages\<close> is a dictionary with the keys role and content.
\<close>

record acreate_args =
  model_args :: "string \<rightharpoonup> string"
  api_key :: string
  api_type :: string
  api_base :: "string option"
  api_version :: "string option"
  organization :: "string option"
  messages :: "(string \<rightharpoonup> string) list"
  temperature :: real
  top_p :: real
  n :: int
  stream :: bool
  stop :: "string list option"
  max_tokens :: int
  presence_penalty :: real
  frequency_penalty :: real
  logit_bias :: "(int \<times> real) list"

text \<open>
  What the transport answers. A request with \<open>stream = False\<close> is answered by a
  completion object, a dictionary: its candidate choices, each with
  \<open>message.content\<close>, and the usage entry when the object has the key usage. A
  request with \<open>stream = True\<close> is answered by an asynchronous generator: the chunks
  it would deliver, then either its end (\<open>None\<close>) or the exception it would raise on
  the next pull. An asynchronous generator can be iterated with \<open>async for\<close> only:
  it has no membership test.
\<close>

record message_obj =
  content :: string

record completion_choice =
  message :: message_obj

record chunk_choice =
  delta :: "string \<rightharpoonup> string"
  index :: int

record chunk =
  choices :: "chunk_choice list"

datatype 'e response =
    ChatCompletion "completion_choice list" "(string \<rightharpoonup> int) option"
  | ChunkIterator "chunk list" "'e option"

text \<open>
  The effects of a call that a caller can observe besides its result: the transport
  calls issued, with their arguments, and the usage entries handed to
  \<open>capture_usage_details\<close>.
\<close>

record effects =
  transport_calls :: "acreate_args list"
  usage_captured :: "(string \<rightharpoonup> int) list"

definition no_effects :: effects where
  "no_effects = \<lparr>transport_calls = [], usage_captured = []\<rparr>"

text \<open>The result of a non-streaming completion: one string or a list of strings.\<close>

datatype completion_result = Single string | Multiple "string list"

text \<open>One element yielded by a streaming completion: a string or a list of strings.\<close>

datatype frame = Text string | Completions "string list"

section \<open>The request\<close>

text \<open>
  The keyword arguments that \<open>_send_chat_request\<close> builds for the transport call
  once the request has passed its checks: the model key, the formatted messages and the
  settings.
\<close>

definition chat_request_args ::
  "OpenAIChatCompletionBase \<Rightarrow> chat_message list \<Rightarrow> ChatRequestSettings \<Rightarrow> bool \<Rightarrow>
   acreate_args" where
  "chat_request_args self msgs rs strm =
     (let margs =
            (if OpenAIChatCompletionBase.api_type self \<in> set [''azure'', ''azure_ad'']
             then [''engine'' \<mapsto> model_id self]
             else [''model'' \<mapsto> model_id self]);
          formatted_messages =
            map (\<lambda>(role, msg). [''role'' \<mapsto> role, ''content'' \<mapsto> msg]) msgs
      in \<lparr>model_args = margs,
          acreate_args.api_key = OpenAIChatCompletionBase.api_key self,
          acreate_args.api_type = OpenAIChatCompletionBase.api_type self,
          api_base = endpoint self,
          acreate_args.api_version = OpenAIChatCompletionBase.api_version self,
          organization = org_id self,
          messages = formatted_messages,
          acreate_args.temperature = ChatRequestSettings.temperature rs,
          acreate_args.top_p = ChatRequestSettings.top_p rs,
          n = ChatRequestSettings.number_of_responses rs,
          stream = strm,
          stop =
            (case ChatRequestSettings.stop_sequences rs of
               None \<Rightarrow> None
             | Some ss \<Rightarrow> if length ss > 0 then Some ss else None),
          acreate_args.max_tokens = ChatRequestSettings.max_tokens rs,
          acreate_args.presence_penalty = ChatRequestSettings.presence_penalty rs,
          acreate_args.frequency_penalty = ChatRequestSettings.frequency_penalty rs,
          logit_bias =
            (case ChatRequestSettings.token_selection_biases rs of
               None \<Rightarrow> []
             | Some bs \<Rightarrow> if length bs > 0 then bs else [])\<rparr>)"

text \<open>
  The test \<open>"usage" in response\<close> and the call of \<open>capture_usage_details\<close> that
  follow the transport call, outside its handler and for streamed requests too: the
  usage entries handed over. On a completion object the test looks for the key. On the
  asynchronous generator of a streamed request the operator \<open>in\<close> raises TypeError.
\<close>

definition capture_usage :: "'e response \<Rightarrow> 'e error + (string \<rightharpoonup> int) list" where
  "capture_usage response =
     (case response of
        ChatCompletion cs (Some u) \<Rightarrow> Inr [u]
      | ChatCompletion cs None \<Rightarrow> Inr []
      | ChunkIterator chunks failure \<Rightarrow> Inl TypeError)"

text \<open>
  \<open>_send_chat_request\<close>. The transport is the parameter \<open>acreate\<close>: it answers
  the arguments of a call with a response (\<open>Inr\<close>) or raises (\<open>Inl\<close>). The
  values of \<open>'e\<close> are the exceptions derived from \<open>Exception\<close>, which the
  handler \<open>except Exception\<close> around the call takes.
\<close>

definition send_chat_request ::
  "OpenAIChatCompletionBase \<Rightarrow> (acreate_args \<Rightarrow> 'e + 'e response) \<Rightarrow> chat_message list \<Rightarrow>
   ChatRequestSettings option \<Rightarrow> bool \<Rightarrow> effects \<times> ('e error + 'e response)" where
  "send_chat_request self acreate msgs request_settings strm =
     (case request_settings of
        None \<Rightarrow> (no_effects, Inl (ValueError ''The request settings cannot be `None`''))
      | Some rs \<Rightarrow>
          if ChatRequestSettings.max_tokens rs < 1 then
            (no_effects,
             Inl (AIException InvalidRequest
                    (''The max tokens must be greater than 0, '' @ ''but was '' @
                     str_int (ChatRequestSettings.max_tokens rs)) None))
          else if int (length msgs) \<le> 0 then
            (no_effects,
             Inl (AIException InvalidRequest
                    ''To complete a chat you need at least one message'' None))
          else if fst (last msgs) \<noteq> ''user'' then
            (no_effects,
             Inl (AIException InvalidRequest ''The last message must be from the user'' None))
          else
            let args = chat_request_args self msgs rs strm
            in (case acreate args of
                  Inl ex \<Rightarrow>
                    (\<lparr>transport_calls = [args], usage_captured = []\<rparr>,
                     Inl (AIException ServiceError
                            ''OpenAI service failed to complete the chat'' (Some ex)))
                | Inr response \<Rightarrow>
                    (case capture_usage response of
                       Inl e \<Rightarrow> (\<lparr>transport_calls = [args], usage_captured = []\<rparr>, Inl e)
                     | Inr captured \<Rightarrow>
                         (\<lparr>transport_calls = [args], usage_captured = captured\<rparr>,
                          Inr response))))"

section \<open>Completions\<close>

text \<open>
  \<open>complete_chat_async\<close>: one choice gives its content, any other number of
  choices the list of the contents. Reading \<open>choices\<close> from an asynchronous
  generator fails with AttributeError.
\<close>

definition complete_chat_async ::
  "OpenAIChatCompletionBase \<Rightarrow> (acreate_args \<Rightarrow> 'e + 'e response) \<Rightarrow> chat_message list \<Rightarrow>
   ChatRequestSettings option \<Rightarrow> effects \<times> ('e error + completion_result)" where
  "complete_chat_async self acreate msgs request_settings =
     (case send_chat_request self acreate msgs request_settings False of
        (eff, Inl e) \<Rightarrow> (eff, Inl e)
      | (eff, Inr (ChatCompletion cs u)) \<Rightarrow>
          if length cs = 1 then (eff, Inr (Single (content (message (cs ! 0)))))
          else (eff, Inr (Multiple (map (\<lambda>choice. content (message choice)) cs)))
      | (eff, Inr (ChunkIterator chunks failure)) \<Rightarrow> (eff, Inl AttributeError))"

text \<open>
  Modelled from the spec: \<open>ChatRequestSettings.from_completion_config\<close> is declared
  outside the modelled files. The specification has it carry temperature, top_p, the two
  penalties, max_tokens, number_of_responses, token_selection_biases and stop_sequences
  over field for field. For a settings object that is absent the specification has the
  operation fail with an InvalidRequest failure before any transport call; it words no
  message for it.
\<close>

definition from_completion_config ::
  "CompleteRequestSettings option \<Rightarrow> 'e error + ChatRequestSettings" where
  "from_completion_config completion_config =
     (case completion_config of
        None \<Rightarrow> Inl (AIException InvalidRequest [] None)
      | Some cc \<Rightarrow>
          Inr \<lparr>ChatRequestSettings.temperature = CompleteRequestSettings.temperature cc,
               ChatRequestSettings.top_p = CompleteRequestSettings.top_p cc,
               ChatRequestSettings.presence_penalty = CompleteRequestSettings.presence_penalty cc,
               ChatRequestSettings.frequency_penalty = CompleteRequestSettings.frequency_penalty cc,
               ChatRequestSettings.max_tokens = CompleteRequestSettings.max_tokens cc,
               ChatRequestSettings.number_of_responses =
                 CompleteRequestSettings.number_of_responses cc,
               ChatRequestSettings.token_selection_biases =
                 CompleteRequestSettings.token_selection_biases cc,
               ChatRequestSettings.stop_sequences = CompleteRequestSettings.stop_sequences cc\<rparr>)"

definition complete_async ::
  "OpenAIChatCompletionBase \<Rightarrow> (acreate_args \<Rightarrow> 'e + 'e response) \<Rightarrow> string \<Rightarrow>
   CompleteRequestSettings option \<Rightarrow> effects \<times> ('e error + completion_result)" where
  "complete_async self acreate prompt request_settings =
     (let prompt_to_message = [(''user'', prompt)] in
      case from_completion_config request_settings of
        Inl e \<Rightarrow> (no_effects, Inl e)
      | Inr chat_settings \<Rightarrow>
          (case send_chat_request self acreate prompt_to_message (Some chat_settings) False of
             (eff, Inl e) \<Rightarrow> (eff, Inl e)
           | (eff, Inr (ChatCompletion cs u)) \<Rightarrow>
               if length cs = 1 then (eff, Inr (Single (content (message (cs ! 0)))))
               else (eff, Inr (Multiple (map (\<lambda>choice. content (message choice)) cs)))
           | (eff, Inr (ChunkIterator chunks failure)) \<Rightarrow> (eff, Inl AttributeError)))"

section \<open>Streaming\<close>

text \<open>
  \<open>_parse_choices\<close>: the fragment and the index of the first choice of a chunk.
  \<open>chunk.choices[0]\<close> on a chunk without choices raises IndexError.
\<close>

definition parse_choices :: "chunk \<Rightarrow> 'e error + string \<times> int" where
  "parse_choices c =
     (case choices c of
        [] \<Rightarrow> Inl IndexError
      | choice0 # _ \<Rightarrow>
          let msg = [];
              msg = (case delta choice0 ''role'' of
                       Some role \<Rightarrow> msg @ role @ '': ''
                     | None \<Rightarrow> msg);
              msg = (case delta choice0 ''content'' of
                       Some c \<Rightarrow> msg @ c
                     | None \<Rightarrow> msg)
          in Inr (msg, index choice0))"

text \<open>
  The body of the loop \<open>async for chunk in response\<close>, which is the same text in
  \<open>complete_chat_stream_async\<close> and in \<open>complete_stream_async\<close>: what one chunk
  makes the generator yield, or the exception it raises instead.
\<close>

definition yield_chunk :: "int \<Rightarrow> chunk \<Rightarrow> 'e error + frame" where
  "yield_chunk nresp c =
     (case parse_choices c of
        Inl e \<Rightarrow> Inl e
      | Inr (text, idx) \<Rightarrow>
          if nresp > 1 then
            (let completions = replicate (nat nresp) [] in
             case list_setitem completions idx text of
               Inl e \<Rightarrow> Inl e
             | Inr completions \<Rightarrow> Inr (Completions completions))
          else Inr (Text text))"

text \<open>
  The loop over the chunks the iterator delivers: the frames yielded in order, and how
  the generator ends: \<open>None\<close> when the iterator is exhausted, the exception otherwise.
  An exception of the loop body ends the generator at that chunk; an exception of the
  iterator itself is not caught by anything and leaves the generator as it is.
\<close>

fun stream_loop :: "int \<Rightarrow> chunk list \<Rightarrow> 'e option \<Rightarrow> frame list \<times> 'e error option" where
  "stream_loop nresp [] None = ([], None)"
| "stream_loop nresp [] (Some ex) = ([], Some (Raised ex))"
| "stream_loop nresp (c # cs) failure =
     (case yield_chunk nresp c of
        Inl e \<Rightarrow> ([], Some e)
      | Inr f \<Rightarrow>
          (case stream_loop nresp cs failure of
             (fs, ending) \<Rightarrow> (f # fs, ending)))"

text \<open>
  A streaming call, consumed to its end: the effects, the frames and the ending. The
  loop runs on the response that \<open>_send_chat_request\<close> returns. \<open>async for\<close>
  over a completion object, which is no asynchronous iterator, raises TypeError.
\<close>

definition complete_chat_stream_async ::
  "OpenAIChatCompletionBase \<Rightarrow> (acreate_args \<Rightarrow> 'e + 'e response) \<Rightarrow> chat_message list \<Rightarrow>
   ChatRequestSettings option \<Rightarrow> effects \<times> frame list \<times> 'e error option" where
  "complete_chat_stream_async self acreate msgs request_settings =
     (case send_chat_request self acreate msgs request_settings True of
        (eff, Inl e) \<Rightarrow> (eff, [], Some e)
      | (eff, Inr (ChatCompletion cs u)) \<Rightarrow> (eff, [], Some TypeError)
      | (eff, Inr (ChunkIterator chunks failure)) \<Rightarrow>
          (case request_settings of
             None \<Rightarrow> (eff, [], Some AttributeError)
           | Some rs \<Rightarrow>
               (eff, stream_loop (ChatRequestSettings.number_of_responses rs) chunks failure)))"

definition complete_stream_async ::
  "OpenAIChatCompletionBase \<Rightarrow> (acreate_args \<Rightarrow> 'e + 'e response) \<Rightarrow> string \<Rightarrow>
   CompleteRequestSettings option \<Rightarrow> effects \<times> frame list \<times> 'e error option" where
  "complete_stream_async self acreate prompt request_settings =
     (let prompt_to_message = [(''user'', prompt)] in
      case request_settings of
        None \<Rightarrow> (no_effects, [], Some AttributeError)
      | Some cs \<Rightarrow>
          let chat_settings =
                \<lparr>ChatRequestSettings.temperature = CompleteRequestSettings.temperature cs,
                 ChatRequestSettings.top_p = CompleteRequestSettings.top_p cs,
                 ChatRequestSettings.presence_penalty =
                   CompleteRequestSettings.presence_penalty cs,
                 ChatRequestSettings.frequency_penalty =
                   CompleteRequestSettings.frequency_penalty cs,
                 ChatRequestSettings.max_tokens = CompleteRequestSettings.max_tokens cs,
                 ChatRequestSettings.number_of_responses =
                   CompleteRequestSettings.number_of_responses cs,
                 ChatRequestSettings.token_selection_biases =
                   CompleteRequestSettings.token_selection_biases cs,
                 ChatRequestSettings.stop_sequences = CompleteRequestSettings.stop_sequences cs\<rparr>
          in (case send_chat_request self acreate prompt_to_message (Some chat_settings) True of
                (eff, Inl e) \<Rightarrow> (eff, [], Some e)
              | (eff, Inr (ChatCompletion chs u)) \<Rightarrow> (eff, [], Some TypeError)
              | (eff, Inr (ChunkIterator chunks failure)) \<Rightarrow>
                  (eff, stream_loop (CompleteRequestSettings.number_of_responses cs)
                          chunks failure)))"

section \<open>The Azure binding built from a dictionary\<close>

text \<open>
  The values a settings dictionary holds: strings, the boolean that \<open>from_dict\<close>
  stores itself, a logger object, \<open>None\<close>.
\<close>

datatype pyvalue = PyStr string | PyBool bool | PyLogger | PyNone

fun truthy :: "pyvalue \<Rightarrow> bool" where
  "truthy (PyStr s) = (s \<noteq> [])"
| "truthy (PyBool b) = b"
| "truthy PyLogger = True"
| "truthy PyNone = False"

text \<open>
  The base initialiser that \<open>AzureChatCompletion.__init__\<close> hands its arguments to is
  declared outside the modelled files; the constructed object is the record of the
  arguments handed over (the model type is always the chat type). With no deprecated
  \<open>logger\<close> argument, \<open>log or logger\<close> is \<open>log\<close> when it is truthy and
  \<open>None\<close> otherwise.
\<close>

record AzureChatCompletion =
  deployment_name :: pyvalue
  endpoint :: pyvalue
  api_key :: pyvalue
  api_version :: pyvalue
  ad_auth :: pyvalue
  log :: pyvalue

definition AzureChatCompletion_init ::
  "pyvalue \<Rightarrow> pyvalue \<Rightarrow> pyvalue \<Rightarrow> pyvalue \<Rightarrow> pyvalue \<Rightarrow> pyvalue \<Rightarrow> AzureChatCompletion" where
  "AzureChatCompletion_init dn ep key ver ad lg =
     \<lparr>deployment_name = dn,
      AzureChatCompletion.endpoint = ep,
      AzureChatCompletion.api_key = key,
      AzureChatCompletion.api_version = ver,
      ad_auth = ad,
      log = (if truthy lg then lg else PyNone)\<rparr>"

text \<open>
  \<open>from_dict\<close> works on the caller's dictionary itself: the first component of the
  result is that dictionary after the call, the second the object built or the KeyError
  of a missing key.
\<close>

definition from_dict ::
  "(string \<rightharpoonup> pyvalue) \<Rightarrow> (string \<rightharpoonup> pyvalue) \<times> ('e error + AzureChatCompletion)" where
  "from_dict settings =
     (let settings =
            (case settings ''api_type'' of
               Some t \<Rightarrow>
                 (settings(''ad_auth'' \<mapsto> PyBool (t = PyStr ''azure_ad'')))(''api_type'' := None)
             | None \<Rightarrow> settings)
      in case settings ''deployment_name'' of
           None \<Rightarrow> (settings, Inl (KeyError ''deployment_name''))
         | Some dn \<Rightarrow>
             (case settings ''endpoint'' of
                None \<Rightarrow> (settings, Inl (KeyError ''endpoint''))
              | Some ep \<Rightarrow>
                  (case settings ''api_key'' of
                     None \<Rightarrow> (settings, Inl (KeyError ''api_key''))
                   | Some key \<Rightarrow>
                       (settings,
                        Inr (AzureChatCompletion_init dn ep key
                               (case settings ''api_version'' of Some v \<Rightarrow> v | None \<Rightarrow> PyNone)
                               (case settings ''ad_auth'' of Some a \<Rightarrow> a | None \<Rightarrow> PyBool False)
                               (case settings ''log'' of Some l \<Rightarrow> l | None \<Rightarrow> PyNone))))))"

section \<open>The specification's words\<close>

text \<open>
  The fragment of a chunk as the specification words it: the role of the delta, when it
  has one, followed by a colon and a blank, then the content of the delta, when it has
  one.
\<close>

definition spec_fragment :: "(string \<rightharpoonup> string) \<Rightarrow> string" where
  "spec_fragment d =
     (case d ''role'' of Some r \<Rightarrow> r @ '': '' | None \<Rightarrow> []) @
     (case d ''content'' of Some t \<Rightarrow> t | None \<Rightarrow> [])"

text \<open>
  The frame of a chunk as the specification words it: an array of
  \<open>number_of_responses\<close> slots, every slot the empty string but the slot at the
  reported index, which holds the fragment.
\<close>

definition spec_frame :: "int \<Rightarrow> int \<Rightarrow> string \<Rightarrow> string list" where
  "spec_frame nresp slot fragment =
     map (\<lambda>k. if int k = slot then fragment else []) [0..<nat nresp]"

text \<open>
  The chat settings that carry the fields of text-completion settings over field for
  field, as the specification words the conversion.
\<close>

definition carried_over :: "CompleteRequestSettings \<Rightarrow> ChatRequestSettings" where
  "carried_over cs =
     \<lparr>ChatRequestSettings.temperature = CompleteRequestSettings.temperature cs,
      ChatRequestSettings.top_p = CompleteRequestSettings.top_p cs,
      ChatRequestSettings.presence_penalty = CompleteRequestSettings.presence_penalty cs,
      ChatRequestSettings.frequency_penalty = CompleteRequestSettings.frequency_penalty cs,
      ChatRequestSettings.max_tokens = CompleteRequestSettings.max_tokens cs,
      ChatRequestSettings.number_of_responses = CompleteRequestSettings.number_of_responses cs,
      ChatRequestSettings.token_selection_biases =
        CompleteRequestSettings.token_selection_biases cs,
      ChatRequestSettings.stop_sequences = CompleteRequestSettings.stop_sequences cs\<rparr>"

section \<open>Sample inputs\<close>

definition openai_binding :: OpenAIChatCompletionBase where
  "openai_binding =
     \<lparr>model_id = ''gpt-3.5-turbo'', api_key = ''sk-key'', api_type = ''open_ai'',
      org_id = None, api_version = None, endpoint = None\<rparr>"

definition azure_binding :: OpenAIChatCompletionBase where
  "azure_binding =
     \<lparr>model_id = ''my-deployment'', api_key = ''az-key'', api_type = ''azure'',
      org_id = None, api_version = Some ''2022-12-01'',
      endpoint = Some ''https://example.openai.azure.com''\<rparr>"

definition chat_settings :: "int \<Rightarrow> int \<Rightarrow> ChatRequestSettings" where
  "chat_settings tokens nresp =
     \<lparr>ChatRequestSettings.temperature = 0, ChatRequestSettings.top_p = 1,
      ChatRequestSettings.presence_penalty = 0, ChatRequestSettings.frequency_penalty = 0,
      ChatRequestSettings.max_tokens = tokens,
      ChatRequestSettings.number_of_responses = nresp,
      ChatRequestSettings.token_selection_biases = Some [],
      ChatRequestSettings.stop_sequences = Some []\<rparr>"

definition complete_settings :: "int \<Rightarrow> int \<Rightarrow> CompleteRequestSettings" where
  "complete_settings tokens nresp =
     \<lparr>CompleteRequestSettings.temperature = 0, CompleteRequestSettings.top_p = 1,
      CompleteRequestSettings.presence_penalty = 0,
      CompleteRequestSettings.frequency_penalty = 0,
      CompleteRequestSettings.max_tokens = tokens,
      CompleteRequestSettings.number_of_responses = nresp,
      CompleteRequestSettings.token_selection_biases = Some [],
      CompleteRequestSettings.stop_sequences = Some []\<rparr>"

definition delta_chunk :: "(string \<times> string) list \<Rightarrow> int \<Rightarrow> chunk" where
  "delta_chunk entries i = \<lparr>choices = [\<lparr>delta = map_of entries, index = i\<rparr>]\<rparr>"

definition streaming :: "chunk list \<Rightarrow> 'e option \<Rightarrow> acreate_args \<Rightarrow> 'e + 'e response" where
  "streaming chunks failure args = Inr (ChunkIterator chunks failure)"

definition answering :: "string list \<Rightarrow> acreate_args \<Rightarrow> 'e + 'e response" where
  "answering contents args =
     Inr (ChatCompletion (map (\<lambda>s. \<lparr>message = \<lparr>content = s\<rparr>\<rparr>) contents) None)"


definition legacy_settings :: "string \<rightharpoonup> pyvalue" where
  "legacy_settings =
     [''deployment_name'' \<mapsto> PyStr ''my-deployment'',
      ''endpoint'' \<mapsto> PyStr ''https://example.openai.azure.com'',
      ''api_key'' \<mapsto> PyStr ''az-key'',
      ''api_type'' \<mapsto> PyStr ''azure_ad'']"

definition plain_settings :: "string \<rightharpoonup> pyvalue" where
  "plain_settings =
     [''deployment_name'' \<mapsto> PyStr ''my-deployment'',
      ''endpoint'' \<mapsto> PyStr ''https://example.openai.azure.com'',
      ''api_key'' \<mapsto> PyStr ''az-key'']"

section \<open>Facts about the request\<close>

lemma send_chat_request_answer:
  assumes "transport_calls (fst (send_chat_request self acreate msgs request_settings strm)) = [args]"
  shows "snd (send_chat_request self acreate msgs request_settings strm) =
           (case acreate args of
              Inl ex \<Rightarrow> Inl (AIException ServiceError
                                ''OpenAI service failed to complete the chat'' (Some ex))
            | Inr (ChatCompletion cs u) \<Rightarrow> Inr (ChatCompletion cs u)
            | Inr (ChunkIterator chunks failure) \<Rightarrow> Inl TypeError)"
  using assms
  by (auto simp: send_chat_request_def capture_usage_def no_effects_def Let_def
           split: option.splits if_splits sum.splits response.splits)

lemma send_chat_request_no_iterator:
  "snd (send_chat_request self acreate msgs request_settings strm) \<noteq>
     Inr (ChunkIterator chunks failure)"
  by (auto simp: send_chat_request_def capture_usage_def Let_def
           split: option.splits if_splits sum.splits response.splits)


lemma complete_chat_async_effects:
  "fst (complete_chat_async self acreate msgs request_settings) =
     fst (send_chat_request self acreate msgs request_settings False)"
  by (cases "send_chat_request self acreate msgs request_settings False")
     (simp add: complete_chat_async_def split: sum.splits response.splits)

lemma complete_chat_stream_async_effects:
  "fst (complete_chat_stream_async self acreate msgs request_settings) =
     fst (send_chat_request self acreate msgs request_settings True)"
  by (cases "send_chat_request self acreate msgs request_settings True")
     (simp add: complete_chat_stream_async_def split: sum.splits response.splits option.splits)

lemma complete_async_as_chat:
  "complete_async self acreate prompt (Some cs) =
     complete_chat_async self acreate [(''user'', prompt)] (Some (carried_over cs))"
  by (simp add: complete_async_def complete_chat_async_def from_completion_config_def
        carried_over_def split: prod.splits sum.splits response.splits)

lemma complete_stream_async_as_chat:
  "complete_stream_async self acreate prompt (Some cs) =
     complete_chat_stream_async self acreate [(''user'', prompt)] (Some (carried_over cs))"
  by (simp add: complete_stream_async_def complete_chat_stream_async_def carried_over_def
        split: prod.splits sum.splits response.splits)

lemma send_chat_request_rejects:
  assumes "ChatRequestSettings.max_tokens rs < 1 \<or> msgs = [] \<or> fst (last msgs) \<noteq> ''user''"
  shows "\<exists>m. send_chat_request self acreate msgs (Some rs) strm =
               (no_effects, Inl (AIException InvalidRequest m None))"
  using assms by (auto simp: send_chat_request_def)

lemma send_chat_request_passes:
  assumes "1 \<le> ChatRequestSettings.max_tokens rs" "msgs \<noteq> []" "fst (last msgs) = ''user''"
  shows "transport_calls (fst (send_chat_request self acreate msgs (Some rs) strm)) =
           [chat_request_args self msgs rs strm]"
  using assms
  by (auto simp: send_chat_request_def Let_def split: sum.splits)

lemma send_chat_request_args:
  assumes "args \<in> set (transport_calls (fst (send_chat_request self acreate msgs request_settings strm)))"
  shows "\<exists>rs. request_settings = Some rs \<and> args = chat_request_args self msgs rs strm"
  using assms
  by (auto simp: send_chat_request_def no_effects_def Let_def
           split: option.splits if_splits sum.splits)

lemma complete_chat_async_answer:
  assumes "transport_calls (fst (complete_chat_async self acreate msgs request_settings)) = [args]"
  shows "snd (complete_chat_async self acreate msgs request_settings) =
           (case acreate args of
              Inl ex \<Rightarrow> Inl (AIException ServiceError
                                ''OpenAI service failed to complete the chat'' (Some ex))
            | Inr (ChatCompletion chs u) \<Rightarrow>
                Inr (if length chs = 1 then Single (content (message (chs ! 0)))
                     else Multiple (map (\<lambda>choice. content (message choice)) chs))
            | Inr (ChunkIterator chunks failure) \<Rightarrow> Inl TypeError)"
proof -
  obtain eff r where sr: "send_chat_request self acreate msgs request_settings False = (eff, r)"
    by (cases "send_chat_request self acreate msgs request_settings False")
  from assms have
    "transport_calls (fst (send_chat_request self acreate msgs request_settings False)) = [args]"
    by (simp add: complete_chat_async_effects)
  from send_chat_request_answer[OF this] sr
  have r: "r = (case acreate args of
              Inl ex \<Rightarrow> Inl (AIException ServiceError
                                ''OpenAI service failed to complete the chat'' (Some ex))
            | Inr (ChatCompletion cs u) \<Rightarrow> Inr (ChatCompletion cs u)
            | Inr (ChunkIterator chunks failure) \<Rightarrow> Inl TypeError)"
    by simp
  show ?thesis
    using sr r
    by (auto simp: complete_chat_async_def split: sum.splits response.splits)
qed


lemma complete_chat_stream_async_stops:
  assumes "transport_calls (fst (complete_chat_stream_async self acreate msgs request_settings)) = [args]"
    and "acreate args = Inr response"
  shows "snd (complete_chat_stream_async self acreate msgs request_settings) =
           ([], Some TypeError)"
proof -
  obtain eff r where sr: "send_chat_request self acreate msgs request_settings True = (eff, r)"
    by (cases "send_chat_request self acreate msgs request_settings True")
  from assms have
    "transport_calls (fst (send_chat_request self acreate msgs request_settings True)) = [args]"
    by (simp add: complete_chat_stream_async_effects)
  from send_chat_request_answer[OF this] sr assms(2)
  have r: "r = (case response of
                  ChatCompletion cs u \<Rightarrow> Inr (ChatCompletion cs u)
                | ChunkIterator chunks failure \<Rightarrow> Inl TypeError)"
    by simp
  show ?thesis
    using sr r by (cases response) (simp_all add: complete_chat_stream_async_def)
qed

lemma complete_chat_stream_async_no_frame:
  "fst (snd (complete_chat_stream_async self acreate msgs request_settings)) = []"
proof -
  obtain eff r where sr: "send_chat_request self acreate msgs request_settings True = (eff, r)"
    by (cases "send_chat_request self acreate msgs request_settings True")
  from send_chat_request_no_iterator[of self acreate msgs request_settings True] sr
  have "\<And>chunks failure. r \<noteq> Inr (ChunkIterator chunks failure)"
    by simp
  with sr show ?thesis
    by (auto simp: complete_chat_stream_async_def split: sum.splits response.splits)
qed



lemma str_int_zero: "str_int 0 = ''0''"
  by (simp add: str_int_def)

lemma chat_request_args_model:
  "model_args (chat_request_args self msgs rs strm) =
     (if OpenAIChatCompletionBase.api_type self = ''azure'' \<or>
         OpenAIChatCompletionBase.api_type self = ''azure_ad''
      then [''engine'' \<mapsto> model_id self]
      else [''model'' \<mapsto> model_id self])"
  by (simp add: chat_request_args_def)

lemma complete_async_effects:
  "fst (complete_async self acreate prompt request_settings) =
     (case request_settings of
        None \<Rightarrow> no_effects
      | Some cs \<Rightarrow>
          fst (send_chat_request self acreate [(''user'', prompt)] (Some (carried_over cs)) False))"
proof (cases request_settings)
  case None
  then show ?thesis by (simp add: complete_async_def from_completion_config_def)
next
  case (Some cs)
  then show ?thesis by (simp add: complete_async_as_chat complete_chat_async_effects)
qed

lemma complete_stream_async_effects:
  "fst (complete_stream_async self acreate prompt request_settings) =
     (case request_settings of
        None \<Rightarrow> no_effects
      | Some cs \<Rightarrow>
          fst (send_chat_request self acreate [(''user'', prompt)] (Some (carried_over cs)) True))"
proof (cases request_settings)
  case None
  then show ?thesis by (simp add: complete_stream_async_def)
next
  case (Some cs)
  then show ?thesis
    by (simp add: complete_stream_async_as_chat complete_chat_stream_async_effects)
qed

section \<open>Facts about streaming\<close>

lemma parse_choices_Cons:
  "choices c = ch # rest \<Longrightarrow> parse_choices c = Inr (spec_fragment (delta ch), index ch)"
  by (simp add: parse_choices_def spec_fragment_def Let_def split: option.splits)

lemma replicate_update_map:
  "i < m \<Longrightarrow> (replicate m x)[i := v] = map (\<lambda>k. if k = i then v else x) [0..<m]"
  by (rule nth_equalityI) (auto simp: nth_list_update)

lemma spec_frame_update:
  assumes "0 \<le> slot" "slot < nresp"
  shows "(replicate (nat nresp) [])[nat slot := fragment] = spec_frame nresp slot fragment"
proof -
  have "nat slot < nat nresp" using assms by simp
  then have "(replicate (nat nresp) [])[nat slot := fragment] =
               map (\<lambda>k. if k = nat slot then fragment else []) [0..<nat nresp]"
    by (rule replicate_update_map)
  also have "\<dots> = spec_frame nresp slot fragment"
    unfolding spec_frame_def using assms by (intro map_cong) auto
  finally show ?thesis .
qed

lemma yield_chunk_cases:
  assumes "1 < nresp" "choices c = ch # rest"
  shows "yield_chunk nresp c =
           (if 0 \<le> index ch \<and> index ch < nresp then
              Inr (Completions ((replicate (nat nresp) [])
                                  [nat (index ch) := spec_fragment (delta ch)]))
            else if - nresp \<le> index ch \<and> index ch < 0 then
              Inr (Completions ((replicate (nat nresp) [])
                                  [nat (nresp + index ch) := spec_fragment (delta ch)]))
            else Inl IndexError)"
  using assms
  by (simp add: yield_chunk_def parse_choices_Cons list_setitem_def Let_def)

lemma yield_chunk_many:
  assumes "1 < nresp" "choices c = ch # rest" "0 \<le> index ch" "index ch < nresp"
  shows "yield_chunk nresp c =
           Inr (Completions (spec_frame nresp (index ch) (spec_fragment (delta ch))))"
  using assms by (simp add: yield_chunk_cases spec_frame_update)

lemma yield_chunk_single:
  assumes "nresp \<le> 1" "choices c = ch # rest"
  shows "yield_chunk nresp c = Inr (Text (spec_fragment (delta ch)))"
  using assms by (simp add: yield_chunk_def parse_choices_Cons)

lemma stream_loop_prefix:
  fixes failure :: "'e option"
  assumes "\<forall>c\<in>set pre. (yield_chunk nresp c :: 'e error + frame) = Inr (g c)"
  shows "stream_loop nresp (pre @ rest) failure =
           (map g pre @ fst (stream_loop nresp rest failure),
            snd (stream_loop nresp rest failure))"
  using assms
proof (induction pre)
  case Nil
  then show ?case by simp
next
  case (Cons c cs)
  then show ?case by (simp add: case_prod_beta)
qed

lemma spec_frame_two:
  "spec_frame 2 slot fragment =
     [if slot = 0 then fragment else [], if slot = 1 then fragment else []]"
  by (simp add: spec_frame_def numeral_2_eq_2)

section \<open>Streaming with several responses\<close>

text \<open>
  C1. For a streaming call with \<open>number_of_responses > 1\<close>, chat or text variant, the
  specification has each chunk yield a fresh array of \<open>number_of_responses\<close> slots,
  all the empty string but the slot at the index the chunk reports, which holds the
  fragment of that chunk alone. The body of the loop does so for a chunk whose index
  names a slot, and the loop yields, for the chunks of any such prefix of the stream and
  in their order, the frame of each chunk alone, whatever follows. No streaming call
  reaches the loop: once the transport has answered, \<open>_send_chat_request\<close> raises
  TypeError at its test \<open>"usage" in response\<close>, and both streaming operations end
  with that TypeError without having yielded a frame.
\<close>

theorem streaming_many_responses_no_frame:
  fixes acreate :: "acreate_args \<Rightarrow> 'e + 'e response" and failure :: "'e option"
  shows
  "(1 < nresp \<and> choices c = ch # rest \<and> 0 \<le> index ch \<and> index ch < nresp \<longrightarrow>
      (yield_chunk nresp c :: 'e error + frame) =
        Inr (Completions (spec_frame nresp (index ch) (spec_fragment (delta ch))))) \<and>
   (1 < nresp \<and>
    (\<forall>c\<in>set pre. choices c \<noteq> [] \<and> 0 \<le> index (hd (choices c)) \<and>
                   index (hd (choices c)) < nresp) \<longrightarrow>
      stream_loop nresp (pre @ later) failure =
        (map (\<lambda>c. Completions (spec_frame nresp (index (hd (choices c)))
                                  (spec_fragment (delta (hd (choices c)))))) pre @
           fst (stream_loop nresp later failure),
         snd (stream_loop nresp later failure))) \<and>
   (1 < ChatRequestSettings.number_of_responses rs \<and>
    transport_calls (fst (complete_chat_stream_async self acreate msgs (Some rs))) = [args] \<and>
    acreate args = Inr response \<longrightarrow>
      snd (complete_chat_stream_async self acreate msgs (Some rs)) = ([], Some TypeError)) \<and>
   (1 < CompleteRequestSettings.number_of_responses cs \<and>
    transport_calls (fst (complete_stream_async self acreate prompt (Some cs))) = [args] \<and>
    acreate args = Inr response \<longrightarrow>
      snd (complete_stream_async self acreate prompt (Some cs)) = ([], Some TypeError))"
proof (intro conjI impI)
  assume "1 < nresp \<and> choices c = ch # rest \<and> 0 \<le> index ch \<and> index ch < nresp"
  then show "(yield_chunk nresp c :: 'e error + frame) =
        Inr (Completions (spec_frame nresp (index ch) (spec_fragment (delta ch))))"
    by (simp add: yield_chunk_many)
next
  let ?g = "\<lambda>c. Completions (spec_frame nresp (index (hd (choices c)))
                                (spec_fragment (delta (hd (choices c)))))"
  assume h: "1 < nresp \<and>
    (\<forall>c\<in>set pre. choices c \<noteq> [] \<and> 0 \<le> index (hd (choices c)) \<and>
                   index (hd (choices c)) < nresp)"
  have each: "\<forall>c\<in>set pre. (yield_chunk nresp c :: 'e error + frame) = Inr (?g c)"
  proof
    fix c assume "c \<in> set pre"
    with h obtain ch rest where "choices c = ch # rest" "0 \<le> index ch" "index ch < nresp"
      by (cases "choices c") auto
    with h show "(yield_chunk nresp c :: 'e error + frame) = Inr (?g c)"
      by (simp add: yield_chunk_many)
  qed
  show "stream_loop nresp (pre @ later) failure =
        (map ?g pre @ fst (stream_loop nresp later failure),
         snd (stream_loop nresp later failure))"
    by (rule stream_loop_prefix[OF each])
next
  assume "1 < ChatRequestSettings.number_of_responses rs \<and>
    transport_calls (fst (complete_chat_stream_async self acreate msgs (Some rs))) = [args] \<and>
    acreate args = Inr response"
  then show "snd (complete_chat_stream_async self acreate msgs (Some rs)) = ([], Some TypeError)"
    using complete_chat_stream_async_stops[of self acreate msgs "Some rs" args response]
    by simp
next
  assume "1 < CompleteRequestSettings.number_of_responses cs \<and>
    transport_calls (fst (complete_stream_async self acreate prompt (Some cs))) = [args] \<and>
    acreate args = Inr response"
  then show "snd (complete_stream_async self acreate prompt (Some cs)) = ([], Some TypeError)"
    using complete_chat_stream_async_stops
            [of self acreate "[(''user'', prompt)]" "Some (carried_over cs)" args response]
    by (simp add: complete_stream_async_as_chat)
qed

theorem streaming_many_responses_no_frame_witness:
  "(yield_chunk 2 (delta_chunk [(''content'', ''X'')] 1) :: string error + frame) =
     Inr (Completions [[], ''X'']) \<and>
   stream_loop 2 [delta_chunk [(''content'', ''X'')] 1, delta_chunk [(''content'', ''Y'')] 0]
     (None :: string option) =
     ([Completions [[], ''X''], Completions [''Y'', []]], None) \<and>
   snd (complete_chat_stream_async openai_binding
          (streaming [delta_chunk [(''content'', ''X'')] 1, delta_chunk [(''content'', ''Y'')] 0] None)
          [(''user'', ''Hi'')] (Some (chat_settings 256 2))) =
     ([], Some TypeError :: string error option) \<and>
   snd (complete_stream_async openai_binding
          (streaming [delta_chunk [(''content'', ''X'')] 1, delta_chunk [(''content'', ''Y'')] 0] None)
          ''Hi'' (Some (complete_settings 256 2))) =
     ([], Some TypeError :: string error option)"
proof -
  let ?x = "delta_chunk [(''content'', ''X'')] 1"
  let ?chunks = "[delta_chunk [(''content'', ''X'')] 1, delta_chunk [(''content'', ''Y'')] 0]"
  let ?acreate = "streaming ?chunks None :: acreate_args \<Rightarrow> string + string response"
  let ?args = "chat_request_args openai_binding [(''user'', ''Hi'')] (chat_settings 256 2) True"
  have one: "(1::int) < 2 \<and>
      choices ?x = \<lparr>delta = map_of [(''content'', ''X'')], index = 1\<rparr> # [] \<and>
      (0::int) \<le> index \<lparr>delta = map_of [(''content'', ''X'')], index = 1\<rparr> \<and>
      index \<lparr>delta = map_of [(''content'', ''X'')], index = 1\<rparr> < 2"
    by (simp add: delta_chunk_def)
  have range: "(1::int) < 2 \<and> (\<forall>c\<in>set ?chunks.
      choices c \<noteq> [] \<and> 0 \<le> index (hd (choices c)) \<and> index (hd (choices c)) < 2)"
    by (simp add: delta_chunk_def)
  have chat: "1 < ChatRequestSettings.number_of_responses (chat_settings 256 2) \<and>
      transport_calls (fst (complete_chat_stream_async openai_binding ?acreate
        [(''user'', ''Hi'')] (Some (chat_settings 256 2)))) = [?args] \<and>
      ?acreate ?args = Inr (ChunkIterator ?chunks None)"
    by (simp add: complete_chat_stream_async_def send_chat_request_def capture_usage_def
          streaming_def chat_settings_def)
  have compl: "1 < CompleteRequestSettings.number_of_responses (complete_settings 256 2) \<and>
      transport_calls (fst (complete_stream_async openai_binding ?acreate
        ''Hi'' (Some (complete_settings 256 2)))) = [?args] \<and>
      ?acreate ?args = Inr (ChunkIterator ?chunks None)"
    by (simp add: complete_stream_async_def send_chat_request_def capture_usage_def
          streaming_def chat_settings_def complete_settings_def)
  have frames: "map (\<lambda>c. Completions (spec_frame 2 (index (hd (choices c)))
                                        (spec_fragment (delta (hd (choices c)))))) ?chunks =
                  [Completions [[], ''X''], Completions [''Y'', []]]"
    by (simp add: spec_frame_two spec_fragment_def delta_chunk_def)
  have body: "spec_frame 2 (index \<lparr>delta = map_of [(''content'', ''X'')], index = 1\<rparr>)
                (spec_fragment (delta \<lparr>delta = map_of [(''content'', ''X'')], index = 1\<rparr>)) =
              [[], ''X'']"
    by (simp add: spec_frame_two spec_fragment_def)
  from streaming_many_responses_no_frame
         [of 2 ?x "\<lparr>delta = map_of [(''content'', ''X'')], index = 1\<rparr>" "[]" ?chunks
             "[]" "None :: string option" "chat_settings 256 2" openai_binding ?acreate
             "[(''user'', ''Hi'')]" ?args "ChunkIterator ?chunks None"
             "complete_settings 256 2" "''Hi''"]
       one range chat compl frames body
  show ?thesis by (simp del: stream_loop.simps(3))
qed

section \<open>Streaming with one response\<close>

text \<open>
  C7. For a streaming call with \<open>number_of_responses = 1\<close>, chat or text variant, the
  specification has each chunk decoded into the fragment made of the role of its delta,
  when present, followed by a colon and a blank, and then the content of its delta, when
  present, and the fragments yielded as string frames in arrival order. The body of the
  loop does so for a chunk that carries a choice, and the loop yields, for the chunks of
  any such prefix of the stream and in their order, the fragment of each, whatever
  follows; the deltas role assistant, content Hi, content there give \<open>assistant: \<close>,
  \<open>Hi\<close> and \<open> there\<close>. No streaming call reaches the loop: once the transport
  has answered, \<open>_send_chat_request\<close> raises TypeError at its test
  \<open>"usage" in response\<close>, and both streaming operations end with that TypeError
  without having yielded a frame.
\<close>

theorem streaming_single_response_no_frame:
  fixes acreate :: "acreate_args \<Rightarrow> 'e + 'e response" and failure :: "'e option"
  shows
  "(choices c = ch # rest \<longrightarrow>
      (yield_chunk 1 c :: 'e error + frame) = Inr (Text (spec_fragment (delta ch)))) \<and>
   ((\<forall>c\<in>set pre. choices c \<noteq> []) \<longrightarrow>
      stream_loop 1 (pre @ later) failure =
        (map (\<lambda>c. Text (spec_fragment (delta (hd (choices c))))) pre @
           fst (stream_loop 1 later failure),
         snd (stream_loop 1 later failure))) \<and>
   (ChatRequestSettings.number_of_responses rs = 1 \<and>
    transport_calls (fst (complete_chat_stream_async self acreate msgs (Some rs))) = [args] \<and>
    acreate args = Inr response \<longrightarrow>
      snd (complete_chat_stream_async self acreate msgs (Some rs)) = ([], Some TypeError)) \<and>
   (CompleteRequestSettings.number_of_responses cs = 1 \<and>
    transport_calls (fst (complete_stream_async self acreate prompt (Some cs))) = [args] \<and>
    acreate args = Inr response \<longrightarrow>
      snd (complete_stream_async self acreate prompt (Some cs)) = ([], Some TypeError))"
proof (intro conjI impI)
  assume "choices c = ch # rest"
  then show "(yield_chunk 1 c :: 'e error + frame) = Inr (Text (spec_fragment (delta ch)))"
    by (simp add: yield_chunk_single)
next
  let ?g = "\<lambda>c. Text (spec_fragment (delta (hd (choices c))))"
  assume h: "\<forall>c\<in>set pre. choices c \<noteq> []"
  have each: "\<forall>c\<in>set pre. (yield_chunk 1 c :: 'e error + frame) = Inr (?g c)"
  proof
    fix c assume "c \<in> set pre"
    with h obtain ch rest where "choices c = ch # rest"
      by (cases "choices c") auto
    then show "(yield_chunk 1 c :: 'e error + frame) = Inr (?g c)"
      by (simp add: yield_chunk_single)
  qed
  show "stream_loop 1 (pre @ later) failure =
        (map ?g pre @ fst (stream_loop 1 later failure), snd (stream_loop 1 later failure))"
    by (rule stream_loop_prefix[OF each])
next
  assume "ChatRequestSettings.number_of_responses rs = 1 \<and>
    transport_calls (fst (complete_chat_stream_async self acreate msgs (Some rs))) = [args] \<and>
    acreate args = Inr response"
  then show "snd (complete_chat_stream_async self acreate msgs (Some rs)) = ([], Some TypeError)"
    using complete_chat_stream_async_stops[of self acreate msgs "Some rs" args response]
    by simp
next
  assume "CompleteRequestSettings.number_of_responses cs = 1 \<and>
    transport_calls (fst (complete_stream_async self acreate prompt (Some cs))) = [args] \<and>
    acreate args = Inr response"
  then show "snd (complete_stream_async self acreate prompt (Some cs)) = ([], Some TypeError)"
    using complete_chat_stream_async_stops
            [of self acreate "[(''user'', prompt)]" "Some (carried_over cs)" args response]
    by (simp add: complete_stream_async_as_chat)
qed

theorem streaming_single_response_no_frame_witness:
  "(yield_chunk 1 (delta_chunk [(''role'', ''assistant'')] 0) :: string error + frame) =
     Inr (Text ''assistant: '') \<and>
   stream_loop 1 [delta_chunk [(''role'', ''assistant'')] 0,
                  delta_chunk [(''content'', ''Hi'')] 0,
                  delta_chunk [(''content'', '' there'')] 0] (None :: string option) =
     ([Text ''assistant: '', Text ''Hi'', Text '' there''], None) \<and>
   snd (complete_chat_stream_async openai_binding
          (streaming [delta_chunk [(''role'', ''assistant'')] 0,
                      delta_chunk [(''content'', ''Hi'')] 0,
                      delta_chunk [(''content'', '' there'')] 0] None)
          [(''user'', ''Hello'')] (Some (chat_settings 256 1))) =
     ([], Some TypeError :: string error option) \<and>
   snd (complete_stream_async openai_binding
          (streaming [delta_chunk [(''role'', ''assistant'')] 0,
                      delta_chunk [(''content'', ''Hi'')] 0,
                      delta_chunk [(''content'', '' there'')] 0] None)
          ''Hello'' (Some (complete_settings 256 1))) =
     ([], Some TypeError :: string error option)"
proof -
  let ?a = "delta_chunk [(''role'', ''assistant'')] 0"
  let ?chunks = "[delta_chunk [(''role'', ''assistant'')] 0,
                  delta_chunk [(''content'', ''Hi'')] 0,
                  delta_chunk [(''content'', '' there'')] 0]"
  let ?acreate = "streaming ?chunks None :: acreate_args \<Rightarrow> string + string response"
  let ?args = "chat_request_args openai_binding [(''user'', ''Hello'')] (chat_settings 256 1) True"
  have one: "choices ?a = \<lparr>delta = map_of [(''role'', ''assistant'')], index = 0\<rparr> # []"
    by (simp add: delta_chunk_def)
  have present: "\<forall>c\<in>set ?chunks. choices c \<noteq> []"
    by (simp add: delta_chunk_def)
  have chat: "ChatRequestSettings.number_of_responses (chat_settings 256 1) = 1 \<and>
      transport_calls (fst (complete_chat_stream_async openai_binding ?acreate
        [(''user'', ''Hello'')] (Some (chat_settings 256 1)))) = [?args] \<and>
      ?acreate ?args = Inr (ChunkIterator ?chunks None)"
    by (simp add: complete_chat_stream_async_def send_chat_request_def capture_usage_def
          streaming_def chat_settings_def)
  have compl: "CompleteRequestSettings.number_of_responses (complete_settings 256 1) = 1 \<and>
      transport_calls (fst (complete_stream_async openai_binding ?acreate
        ''Hello'' (Some (complete_settings 256 1)))) = [?args] \<and>
      ?acreate ?args = Inr (ChunkIterator ?chunks None)"
    by (simp add: complete_stream_async_def send_chat_request_def capture_usage_def
          streaming_def chat_settings_def complete_settings_def)
  have frames: "map (\<lambda>c. Text (spec_fragment (delta (hd (choices c))))) ?chunks =
                  [Text ''assistant: '', Text ''Hi'', Text '' there'']"
    by (simp add: spec_fragment_def delta_chunk_def)
  have body: "spec_fragment (delta \<lparr>delta = map_of [(''role'', ''assistant'')], index = 0\<rparr>) =
      ''assistant: ''"
    by (simp add: spec_fragment_def)
  from streaming_single_response_no_frame
         [of ?a "\<lparr>delta = map_of [(''role'', ''assistant'')], index = 0\<rparr>" "[]" ?chunks "[]"
             "None :: string option" "chat_settings 256 1" openai_binding ?acreate
             "[(''user'', ''Hello'')]" ?args "ChunkIterator ?chunks None"
             "complete_settings 256 1" "''Hello''"]
       one present chat compl frames body
  show ?thesis by (simp del: stream_loop.simps(3))
qed

section \<open>A reported index outside the array\<close>

text \<open>
  C10. With \<open>number_of_responses > 1\<close> the body of the loop writes the fragment of a
  chunk into a fresh array of \<open>number_of_responses\<close> empty strings: at the reported
  index when it lies in \<open>0 .. number_of_responses - 1\<close>, at that index counted from
  the end when it lies in \<open>- number_of_responses .. - 1\<close>, and with IndexError
  instead of a frame for any other index, so for every index greater than or equal to
  \<open>number_of_responses\<close>; the loop then ends with that IndexError at that chunk. A
  streaming call does not end so: once the transport has answered with its chunks,
  \<open>_send_chat_request\<close> raises TypeError at its test \<open>"usage" in response\<close>
  before a chunk is read, and both streaming operations end with that TypeError.
\<close>

theorem streaming_index_out_of_bounds:
  fixes acreate :: "acreate_args \<Rightarrow> 'e + 'e response" and failure :: "'e option"
  assumes "1 < nresp" and "choices c = ch # rest"
  shows
  "(yield_chunk nresp c :: 'e error + frame) =
     (if 0 \<le> index ch \<and> index ch < nresp then
        Inr (Completions ((replicate (nat nresp) [])
                            [nat (index ch) := spec_fragment (delta ch)]))
      else if - nresp \<le> index ch \<and> index ch < 0 then
        Inr (Completions ((replicate (nat nresp) [])
                            [nat (nresp + index ch) := spec_fragment (delta ch)]))
      else Inl IndexError) \<and>
   (nresp \<le> index ch \<longrightarrow>
      (yield_chunk nresp c :: 'e error + frame) = Inl IndexError \<and>
      stream_loop nresp (c # later) failure = ([], Some IndexError) \<and>
      (ChatRequestSettings.number_of_responses rs = nresp \<and>
       transport_calls (fst (complete_chat_stream_async self acreate msgs (Some rs))) = [args] \<and>
       acreate args = Inr (ChunkIterator (pre @ c # post) failure) \<longrightarrow>
         snd (complete_chat_stream_async self acreate msgs (Some rs)) = ([], Some TypeError)) \<and>
      (CompleteRequestSettings.number_of_responses cs = nresp \<and>
       transport_calls (fst (complete_stream_async self acreate prompt (Some cs))) = [args] \<and>
       acreate args = Inr (ChunkIterator (pre @ c # post) failure) \<longrightarrow>
         snd (complete_stream_async self acreate prompt (Some cs)) = ([], Some TypeError)))"
proof (intro conjI impI)
  show cases: "(yield_chunk nresp c :: 'e error + frame) =
     (if 0 \<le> index ch \<and> index ch < nresp then
        Inr (Completions ((replicate (nat nresp) [])
                            [nat (index ch) := spec_fragment (delta ch)]))
      else if - nresp \<le> index ch \<and> index ch < 0 then
        Inr (Completions ((replicate (nat nresp) [])
                            [nat (nresp + index ch) := spec_fragment (delta ch)]))
      else Inl IndexError)"
    by (rule yield_chunk_cases[OF assms])
  assume big: "nresp \<le> index ch"
  with assms show y: "(yield_chunk nresp c :: 'e error + frame) = Inl IndexError"
    by (simp add: yield_chunk_cases)
  then show "stream_loop nresp (c # later) failure = ([], Some IndexError)"
    by simp
next
  assume "ChatRequestSettings.number_of_responses rs = nresp \<and>
       transport_calls (fst (complete_chat_stream_async self acreate msgs (Some rs))) = [args] \<and>
       acreate args = Inr (ChunkIterator (pre @ c # post) failure)"
  then show "snd (complete_chat_stream_async self acreate msgs (Some rs)) = ([], Some TypeError)"
    using complete_chat_stream_async_stops
            [of self acreate msgs "Some rs" args "ChunkIterator (pre @ c # post) failure"]
    by simp
next
  assume "CompleteRequestSettings.number_of_responses cs = nresp \<and>
       transport_calls (fst (complete_stream_async self acreate prompt (Some cs))) = [args] \<and>
       acreate args = Inr (ChunkIterator (pre @ c # post) failure)"
  then show "snd (complete_stream_async self acreate prompt (Some cs)) = ([], Some TypeError)"
    using complete_chat_stream_async_stops
            [of self acreate "[(''user'', prompt)]" "Some (carried_over cs)" args
                "ChunkIterator (pre @ c # post) failure"]
    by (simp add: complete_stream_async_as_chat)
qed

theorem streaming_index_out_of_bounds_witness:
  "(yield_chunk 2 (delta_chunk [(''content'', ''Z'')] 2) :: string error + frame) =
     Inl IndexError \<and>
   (yield_chunk 2 (delta_chunk [(''content'', ''W'')] (- 1)) :: string error + frame) =
     Inr (Completions [[], ''W'']) \<and>
   stream_loop 2 [delta_chunk [(''content'', ''Z'')] 2, delta_chunk [(''content'', ''X'')] 1]
     (None :: string option) = ([], Some IndexError) \<and>
   snd (complete_chat_stream_async openai_binding
          (streaming [delta_chunk [(''content'', ''Y'')] 0, delta_chunk [(''content'', ''Z'')] 2,
                      delta_chunk [(''content'', ''X'')] 1] None)
          [(''user'', ''Hi'')] (Some (chat_settings 256 2))) =
     ([], Some TypeError :: string error option) \<and>
   snd (complete_stream_async openai_binding
          (streaming [delta_chunk [(''content'', ''Y'')] 0, delta_chunk [(''content'', ''Z'')] 2,
                      delta_chunk [(''content'', ''X'')] 1] None)
          ''Hi'' (Some (complete_settings 256 2))) =
     ([], Some TypeError :: string error option)"
proof -
  let ?pre = "[delta_chunk [(''content'', ''Y'')] 0]"
  let ?post = "[delta_chunk [(''content'', ''X'')] 1]"
  let ?c = "delta_chunk [(''content'', ''Z'')] 2"
  let ?w = "delta_chunk [(''content'', ''W'')] (- 1)"
  let ?chunks = "[delta_chunk [(''content'', ''Y'')] 0, delta_chunk [(''content'', ''Z'')] 2,
                  delta_chunk [(''content'', ''X'')] 1]"
  let ?acreate = "streaming ?chunks None :: acreate_args \<Rightarrow> string + string response"
  let ?args = "chat_request_args openai_binding [(''user'', ''Hi'')] (chat_settings 256 2) True"
  have wrapped: "choices ?w = \<lparr>delta = map_of [(''content'', ''W'')], index = - 1\<rparr> # []"
    by (simp add: delta_chunk_def)
  have outside: "choices ?c = \<lparr>delta = map_of [(''content'', ''Z'')], index = 2\<rparr> # []"
    by (simp add: delta_chunk_def)
  have chat: "ChatRequestSettings.number_of_responses (chat_settings 256 2) = 2 \<and>
      transport_calls (fst (complete_chat_stream_async openai_binding ?acreate
        [(''user'', ''Hi'')] (Some (chat_settings 256 2)))) = [?args] \<and>
      ?acreate ?args = Inr (ChunkIterator (?pre @ ?c # ?post) None)"
    by (simp add: complete_chat_stream_async_def send_chat_request_def capture_usage_def
          streaming_def chat_settings_def)
  have compl: "CompleteRequestSettings.number_of_responses (complete_settings 256 2) = 2 \<and>
      transport_calls (fst (complete_stream_async openai_binding ?acreate
        ''Hi'' (Some (complete_settings 256 2)))) = [?args] \<and>
      ?acreate ?args = Inr (ChunkIterator (?pre @ ?c # ?post) None)"
    by (simp add: complete_stream_async_def send_chat_request_def capture_usage_def
          streaming_def chat_settings_def complete_settings_def)
  have two: "(1::int) < 2" by simp
  from streaming_index_out_of_bounds[OF two wrapped, where ?'e = string]
  have first: "(yield_chunk 2 ?w :: string error + frame) = Inr (Completions [[], ''W''])"
    by (simp add: spec_fragment_def numeral_2_eq_2)
  from streaming_index_out_of_bounds[OF two outside, of ?post None "chat_settings 256 2"
         openai_binding ?acreate "[(''user'', ''Hi'')]" ?args ?pre ?post
         "complete_settings 256 2" "''Hi''"]
       chat compl
  have rest: "(yield_chunk 2 ?c :: string error + frame) = Inl IndexError \<and>
   stream_loop 2 (?c # ?post) (None :: string option) = ([], Some IndexError) \<and>
   snd (complete_chat_stream_async openai_binding ?acreate
          [(''user'', ''Hi'')] (Some (chat_settings 256 2))) = ([], Some TypeError) \<and>
   snd (complete_stream_async openai_binding ?acreate
          ''Hi'' (Some (complete_settings 256 2))) = ([], Some TypeError)"
    by (simp del: stream_loop.simps(3))
  from first rest show ?thesis by (simp del: stream_loop.simps(3))
qed

section \<open>Absent settings\<close>

text \<open>
  C2, as the specification states it: a call of completeChat or completeText whose
  settings object is absent fails with an InvalidRequest failure, and no transport call
  is issued. The code fails without a transport call, but not with InvalidRequest: the
  check of \<open>_send_chat_request\<close> raises a plain ValueError.
\<close>

theorem absent_settings_counterexample:
  "snd (complete_chat_async openai_binding (answering [''ok'']) [(''user'', ''Hi'')] None) =
     (Inl (ValueError ''The request settings cannot be `None`'')
        :: string error + completion_result) \<and>
   (\<forall>m inner.
      snd (complete_chat_async openai_binding (answering [''ok'']) [(''user'', ''Hi'')] None) \<noteq>
        (Inl (AIException InvalidRequest m inner) :: string error + completion_result))"
  by (simp add: complete_chat_async_def send_chat_request_def)

text \<open>
  C2, amended: a call of completeChat whose settings object is \<open>None\<close> fails with
  the ValueError "The request settings cannot be `None`", which is no AIException and
  carries no error code, and issues no transport call.
\<close>

theorem absent_settings_fail_without_call:
  "snd (complete_chat_async self acreate msgs None) =
     Inl (ValueError ''The request settings cannot be `None`'') \<and>
   transport_calls (fst (complete_chat_async self acreate msgs None)) = []"
  by (simp add: complete_chat_async_def send_chat_request_def no_effects_def)

theorem absent_settings_fail_without_call_witness:
  "snd (complete_chat_async azure_binding (answering [''ok'']) [(''user'', ''Hi'')] None) =
     (Inl (ValueError ''The request settings cannot be `None`'')
        :: string error + completion_result) \<and>
   transport_calls (fst (complete_chat_async azure_binding
      (answering [''ok''] :: acreate_args \<Rightarrow> string + string response)
      [(''user'', ''Hi'')] None)) = []"
  using absent_settings_fail_without_call
          [of azure_binding "answering [''ok''] :: acreate_args \<Rightarrow> string + string response"
              "[(''user'', ''Hi'')]"]
  by simp

section \<open>Requests rejected before the transport call\<close>

text \<open>
  C4, as the specification states it: every call of completeChat or completeText with
  \<open>max_tokens < 1\<close>, or with an empty message list, or with a message list whose
  last entry is not of role user, fails with InvalidRequest and issues no transport
  call. The check of the settings object comes first: with settings that are \<open>None\<close>
  an empty message list, or one that ends with an assistant message, fails with the
  ValueError of that check.
\<close>

theorem invalid_request_counterexample:
  "snd (complete_chat_async openai_binding (answering [''ok'']) [] None) =
     (Inl (ValueError ''The request settings cannot be `None`'')
        :: string error + completion_result) \<and>
   (\<forall>m inner.
      snd (complete_chat_async openai_binding (answering [''ok'']) [] None) \<noteq>
        (Inl (AIException InvalidRequest m inner) :: string error + completion_result)) \<and>
   snd (complete_chat_async openai_binding (answering [''ok''])
          [(''user'', ''Hi''), (''assistant'', ''Hello'')] None) =
     (Inl (ValueError ''The request settings cannot be `None`'')
        :: string error + completion_result)"
  by (simp add: complete_chat_async_def send_chat_request_def)

text \<open>
  C4, amended: a call of completeChat whose settings object is present and has
  \<open>max_tokens\<close> below 1, or whose message list is empty, or whose message list ends
  with an entry that is not of role user, fails with an AIException of code
  InvalidRequest and issues no transport call. completeText always sends the one user
  message it builds from the prompt, so with settings present it is rejected in the same
  way exactly for \<open>max_tokens < 1\<close>. With settings that are \<open>None\<close> completeChat
  fails with the ValueError of the settings check, whatever the message list, and issues
  no transport call either.
\<close>

theorem invalid_request_rejected:
  "(ChatRequestSettings.max_tokens rs < 1 \<or> msgs = [] \<or> fst (last msgs) \<noteq> ''user'' \<longrightarrow>
      (\<exists>m. snd (complete_chat_async self acreate msgs (Some rs)) =
             Inl (AIException InvalidRequest m None)) \<and>
      transport_calls (fst (complete_chat_async self acreate msgs (Some rs))) = []) \<and>
   (CompleteRequestSettings.max_tokens cs < 1 \<longrightarrow>
      (\<exists>m. snd (complete_async self acreate prompt (Some cs)) =
             Inl (AIException InvalidRequest m None)) \<and>
      transport_calls (fst (complete_async self acreate prompt (Some cs))) = []) \<and>
   snd (complete_chat_async self acreate msgs None) =
     Inl (ValueError ''The request settings cannot be `None`'') \<and>
   transport_calls (fst (complete_chat_async self acreate msgs None)) = []"
proof (intro conjI impI)
  assume bad: "ChatRequestSettings.max_tokens rs < 1 \<or> msgs = [] \<or> fst (last msgs) \<noteq> ''user''"
  from send_chat_request_rejects[OF bad, of self acreate False] obtain m where
    m: "send_chat_request self acreate msgs (Some rs) False =
          (no_effects, Inl (AIException InvalidRequest m None))"
    by blast
  then show "\<exists>m. snd (complete_chat_async self acreate msgs (Some rs)) =
             Inl (AIException InvalidRequest m None)"
    by (simp add: complete_chat_async_def)
  from m show "transport_calls (fst (complete_chat_async self acreate msgs (Some rs))) = []"
    by (simp add: complete_chat_async_def no_effects_def)
next
  assume "CompleteRequestSettings.max_tokens cs < 1"
  then have bad: "ChatRequestSettings.max_tokens (carried_over cs) < 1 \<or>
      [(''user'', prompt)] = [] \<or> fst (last [(''user'', prompt)]) \<noteq> ''user''"
    by (simp add: carried_over_def)
  from send_chat_request_rejects[OF bad, of self acreate False] obtain m where
    m: "send_chat_request self acreate [(''user'', prompt)] (Some (carried_over cs)) False =
          (no_effects, Inl (AIException InvalidRequest m None))"
    by blast
  then show "\<exists>m. snd (complete_async self acreate prompt (Some cs)) =
             Inl (AIException InvalidRequest m None)"
    by (simp add: complete_async_as_chat complete_chat_async_def)
  from m show "transport_calls (fst (complete_async self acreate prompt (Some cs))) = []"
    by (simp add: complete_async_as_chat complete_chat_async_def no_effects_def)
next
  show "snd (complete_chat_async self acreate msgs None) =
     Inl (ValueError ''The request settings cannot be `None`'')"
    by (simp add: complete_chat_async_def send_chat_request_def)
  show "transport_calls (fst (complete_chat_async self acreate msgs None)) = []"
    by (simp add: complete_chat_async_def send_chat_request_def no_effects_def)
qed

theorem invalid_request_rejected_witness:
  "snd (complete_chat_async openai_binding (answering [''ok'']) [(''user'', ''Hi'')]
          (Some (chat_settings 0 1))) =
     (Inl (AIException InvalidRequest ''The max tokens must be greater than 0, but was 0'' None)
        :: string error + completion_result) \<and>
   transport_calls (fst (complete_chat_async openai_binding
      (answering [''ok''] :: acreate_args \<Rightarrow> string + string response) [(''user'', ''Hi'')]
      (Some (chat_settings 0 1)))) = [] \<and>
   snd (complete_chat_async openai_binding (answering [''ok'']) []
          (Some (chat_settings 256 1))) =
     (Inl (AIException InvalidRequest ''To complete a chat you need at least one message'' None)
        :: string error + completion_result) \<and>
   snd (complete_chat_async openai_binding (answering [''ok''])
          [(''user'', ''Hi''), (''assistant'', ''Hello'')] (Some (chat_settings 256 1))) =
     (Inl (AIException InvalidRequest ''The last message must be from the user'' None)
        :: string error + completion_result) \<and>
   snd (complete_async openai_binding (answering [''ok'']) ''Hi''
          (Some (complete_settings 0 1))) =
     (Inl (AIException InvalidRequest ''The max tokens must be greater than 0, but was 0'' None)
        :: string error + completion_result) \<and>
   transport_calls (fst (complete_async openai_binding
      (answering [''ok''] :: acreate_args \<Rightarrow> string + string response) ''Hi''
      (Some (complete_settings 0 1)))) = [] \<and>
   snd (complete_chat_async openai_binding (answering [''ok'']) [] None) =
     (Inl (ValueError ''The request settings cannot be `None`'')
        :: string error + completion_result)"
  using invalid_request_rejected
          [of "chat_settings 0 1" "[(''user'', ''Hi'')]" openai_binding
              "answering [''ok''] :: acreate_args \<Rightarrow> string + string response"
              "complete_settings 0 1" "''Hi''"]
        invalid_request_rejected
          [of "chat_settings 256 1" "[]" openai_binding
              "answering [''ok''] :: acreate_args \<Rightarrow> string + string response"
              "complete_settings 0 1" "''Hi''"]
        invalid_request_rejected
          [of "chat_settings 256 1" "[(''user'', ''Hi''), (''assistant'', ''Hello'')]"
              openai_binding
              "answering [''ok''] :: acreate_args \<Rightarrow> string + string response"
              "complete_settings 0 1" "''Hi''"]
  by (simp add: complete_chat_async_def complete_async_def send_chat_request_def
        from_completion_config_def chat_settings_def complete_settings_def no_effects_def
        str_int_zero)

section \<open>Failures of the transport\<close>





lemma chat_request_args_fields:
  "messages (chat_request_args self msgs rs strm) =
     map (\<lambda>(role, msg). [''role'' \<mapsto> role, ''content'' \<mapsto> msg]) msgs"
  "acreate_args.temperature (chat_request_args self msgs rs strm) =
     ChatRequestSettings.temperature rs"
  "acreate_args.top_p (chat_request_args self msgs rs strm) = ChatRequestSettings.top_p rs"
  "acreate_args.presence_penalty (chat_request_args self msgs rs strm) =
     ChatRequestSettings.presence_penalty rs"
  "acreate_args.frequency_penalty (chat_request_args self msgs rs strm) =
     ChatRequestSettings.frequency_penalty rs"
  "acreate_args.max_tokens (chat_request_args self msgs rs strm) =
     ChatRequestSettings.max_tokens rs"
  "n (chat_request_args self msgs rs strm) = ChatRequestSettings.number_of_responses rs"
  "stream (chat_request_args self msgs rs strm) = strm"
  "stop (chat_request_args self msgs rs strm) =
     (case ChatRequestSettings.stop_sequences rs of
        None \<Rightarrow> None
      | Some ss \<Rightarrow> if ss = [] then None else Some ss)"
  "logit_bias (chat_request_args self msgs rs strm) =
     (case ChatRequestSettings.token_selection_biases rs of None \<Rightarrow> [] | Some bs \<Rightarrow> bs)"
  by (simp_all add: chat_request_args_def Let_def split: option.splits)

lemma from_dict_settings:
  "fst (from_dict settings :: (string \<rightharpoonup> pyvalue) \<times> ('e error + AzureChatCompletion)) =
     (case settings ''api_type'' of
        Some t \<Rightarrow> (settings(''ad_auth'' \<mapsto> PyBool (t = PyStr ''azure_ad'')))(''api_type'' := None)
      | None \<Rightarrow> settings)"
  by (simp add: from_dict_def Let_def split: option.splits)

section \<open>The result of a completion\<close>

text \<open>
  C6. When the transport answers a non-streaming request with a completion object,
  completeChat and completeText return the content of the one choice, as a string, when
  the object carries exactly one choice, and otherwise the list of the contents of the
  choices in the order of the choices; the result is never a list of one element.
\<close>

theorem completion_result_shape:
  fixes acreate :: "acreate_args \<Rightarrow> 'e + 'e response"
  shows
  "(transport_calls (fst (complete_chat_async self acreate msgs request_settings)) = [args] \<and>
    acreate args = Inr (ChatCompletion chs u) \<longrightarrow>
      snd (complete_chat_async self acreate msgs request_settings) =
        Inr (if length chs = 1 then Single (content (message (chs ! 0)))
             else Multiple (map (\<lambda>choice. content (message choice)) chs)) \<and>
      (\<forall>s. snd (complete_chat_async self acreate msgs request_settings) \<noteq>
             Inr (Multiple [s]))) \<and>
   (transport_calls (fst (complete_async self acreate prompt (Some cs))) = [args] \<and>
    acreate args = Inr (ChatCompletion chs u) \<longrightarrow>
      snd (complete_async self acreate prompt (Some cs)) =
        Inr (if length chs = 1 then Single (content (message (chs ! 0)))
             else Multiple (map (\<lambda>choice. content (message choice)) chs)) \<and>
      (\<forall>s. snd (complete_async self acreate prompt (Some cs)) \<noteq> Inr (Multiple [s])))"
proof -
  have never: "\<And>s. (if length chs = 1 then Single (content (message (chs ! 0)))
             else Multiple (map (\<lambda>choice. content (message choice)) chs)) \<noteq> Multiple [s]"
  proof -
    fix s
    show "(if length chs = 1 then Single (content (message (chs ! 0)))
             else Multiple (map (\<lambda>choice. content (message choice)) chs)) \<noteq> Multiple [s]"
    proof (cases "length chs = 1")
      case True
      then show ?thesis by simp
    next
      case False
      have "length (map (\<lambda>choice. content (message choice)) chs) \<noteq> length [s]"
        using False by simp
      then have "map (\<lambda>choice. content (message choice)) chs \<noteq> [s]"
        by metis
      with False show ?thesis by simp
    qed
  qed
  show ?thesis
  proof (intro conjI impI allI)
    assume h: "transport_calls (fst (complete_chat_async self acreate msgs request_settings)) = [args] \<and>
      acreate args = Inr (ChatCompletion chs u)"
    then show r: "snd (complete_chat_async self acreate msgs request_settings) =
        Inr (if length chs = 1 then Single (content (message (chs ! 0)))
             else Multiple (map (\<lambda>choice. content (message choice)) chs))"
      using complete_chat_async_answer[of self acreate msgs request_settings args] by simp
    fix s
    from r never[of s]
    show "snd (complete_chat_async self acreate msgs request_settings) \<noteq> Inr (Multiple [s])"
      by simp
  next
    assume h: "transport_calls (fst (complete_async self acreate prompt (Some cs))) = [args] \<and>
      acreate args = Inr (ChatCompletion chs u)"
    then show r: "snd (complete_async self acreate prompt (Some cs)) =
        Inr (if length chs = 1 then Single (content (message (chs ! 0)))
             else Multiple (map (\<lambda>choice. content (message choice)) chs))"
      using complete_chat_async_answer
              [of self acreate "[(''user'', prompt)]" "Some (carried_over cs)" args]
      by (simp add: complete_async_as_chat)
    fix s
    from r never[of s]
    show "snd (complete_async self acreate prompt (Some cs)) \<noteq> Inr (Multiple [s])"
      by simp
  qed
qed

theorem completion_result_shape_witness:
  "snd (complete_chat_async openai_binding (answering [''only'']) [(''user'', ''Hello'')]
          (Some (chat_settings 256 1))) =
     (Inr (Single ''only'') :: string error + completion_result) \<and>
   snd (complete_async openai_binding (answering [''only'']) ''Hello''
          (Some (complete_settings 256 1))) =
     (Inr (Single ''only'') :: string error + completion_result) \<and>
   snd (complete_chat_async openai_binding (answering [''a'', ''b'', ''c''])
          [(''user'', ''Hello'')] (Some (chat_settings 256 3))) =
     (Inr (Multiple [''a'', ''b'', ''c'']) :: string error + completion_result) \<and>
   snd (complete_async openai_binding (answering [''a'', ''b'', ''c'']) ''Hello''
          (Some (complete_settings 256 3))) =
     (Inr (Multiple [''a'', ''b'', ''c'']) :: string error + completion_result)"
proof -
  let ?msgs = "[(''user'', ''Hello'')]"
  let ?one = "answering [''only''] :: acreate_args \<Rightarrow> string + string response"
  let ?three = "answering [''a'', ''b'', ''c''] :: acreate_args \<Rightarrow> string + string response"
  let ?args1 = "chat_request_args openai_binding ?msgs (chat_settings 256 1) False"
  let ?args3 = "chat_request_args openai_binding ?msgs (chat_settings 256 3) False"
  have calls:
    "transport_calls (fst (complete_chat_async openai_binding ?one ?msgs
       (Some (chat_settings 256 1)))) = [?args1]"
    "transport_calls (fst (complete_async openai_binding ?one ''Hello''
       (Some (complete_settings 256 1)))) = [?args1]"
    "transport_calls (fst (complete_chat_async openai_binding ?three ?msgs
       (Some (chat_settings 256 3)))) = [?args3]"
    "transport_calls (fst (complete_async openai_binding ?three ''Hello''
       (Some (complete_settings 256 3)))) = [?args3]"
    by (simp_all add: complete_chat_async_def complete_async_def send_chat_request_def capture_usage_def
          from_completion_config_def answering_def chat_settings_def complete_settings_def)
  have answers:
    "?one ?args1 = Inr (ChatCompletion [\<lparr>message = \<lparr>content = ''only''\<rparr>\<rparr>] None)"
    "?three ?args3 = Inr (ChatCompletion [\<lparr>message = \<lparr>content = ''a''\<rparr>\<rparr>,
       \<lparr>message = \<lparr>content = ''b''\<rparr>\<rparr>, \<lparr>message = \<lparr>content = ''c''\<rparr>\<rparr>] None)"
    by (simp_all add: answering_def)
  from completion_result_shape
         [of openai_binding ?one ?msgs "Some (chat_settings 256 1)" ?args1
             "[\<lparr>message = \<lparr>content = ''only''\<rparr>\<rparr>]" None "''Hello''"
             "complete_settings 256 1"]
       calls answers
  have a: "snd (complete_chat_async openai_binding ?one ?msgs (Some (chat_settings 256 1))) =
       Inr (Single ''only'') \<and>
     snd (complete_async openai_binding ?one ''Hello'' (Some (complete_settings 256 1))) =
       Inr (Single ''only'')"
    by simp
  from completion_result_shape
         [of openai_binding ?three ?msgs "Some (chat_settings 256 3)" ?args3
             "[\<lparr>message = \<lparr>content = ''a''\<rparr>\<rparr>, \<lparr>message = \<lparr>content = ''b''\<rparr>\<rparr>,
               \<lparr>message = \<lparr>content = ''c''\<rparr>\<rparr>]" None "''Hello''"
             "complete_settings 256 3"]
       calls answers
  have b: "snd (complete_chat_async openai_binding ?three ?msgs (Some (chat_settings 256 3))) =
       Inr (Multiple [''a'', ''b'', ''c'']) \<and>
     snd (complete_async openai_binding ?three ''Hello'' (Some (complete_settings 256 3))) =
       Inr (Multiple [''a'', ''b'', ''c''])"
    by simp
  from a b show ?thesis by simp
qed

section \<open>The model key of the request\<close>

text \<open>
  C9. The model key of every transport call is determined by \<open>api_type\<close>: when it is
  azure or azure_ad the arguments bind the stored model identifier to the key engine,
  and for every other value they bind the same identifier to the key model; in both
  cases it is the only model key. This holds for the calls issued by
  \<open>_send_chat_request\<close> and so for those of the four public operations.
\<close>

theorem model_key_by_api_type:
  fixes acreate :: "acreate_args \<Rightarrow> 'e + 'e response"
  shows
  "args \<in> set (transport_calls (fst (send_chat_request self acreate msgs request_settings strm))) \<or>
   args \<in> set (transport_calls (fst (complete_chat_async self acreate msgs request_settings))) \<or>
   args \<in> set (transport_calls (fst (complete_chat_stream_async self acreate msgs request_settings))) \<or>
   args \<in> set (transport_calls (fst (complete_async self acreate prompt text_settings))) \<or>
   args \<in> set (transport_calls (fst (complete_stream_async self acreate prompt text_settings)))
   \<longrightarrow>
   model_args args =
     (if OpenAIChatCompletionBase.api_type self = ''azure'' \<or>
         OpenAIChatCompletionBase.api_type self = ''azure_ad''
      then [''engine'' \<mapsto> model_id self]
      else [''model'' \<mapsto> model_id self])"
proof
  assume "args \<in> set (transport_calls (fst (send_chat_request self acreate msgs request_settings strm))) \<or>
   args \<in> set (transport_calls (fst (complete_chat_async self acreate msgs request_settings))) \<or>
   args \<in> set (transport_calls (fst (complete_chat_stream_async self acreate msgs request_settings))) \<or>
   args \<in> set (transport_calls (fst (complete_async self acreate prompt text_settings))) \<or>
   args \<in> set (transport_calls (fst (complete_stream_async self acreate prompt text_settings)))"
  then have "\<exists>ms rs s. args = chat_request_args self ms rs s"
  proof (elim disjE)
    assume "args \<in> set (transport_calls (fst (send_chat_request self acreate msgs request_settings strm)))"
    from send_chat_request_args[OF this] show ?thesis by blast
  next
    assume "args \<in> set (transport_calls (fst (complete_chat_async self acreate msgs request_settings)))"
    then have "args \<in> set (transport_calls (fst (send_chat_request self acreate msgs request_settings False)))"
      by (simp add: complete_chat_async_effects)
    from send_chat_request_args[OF this] show ?thesis by blast
  next
    assume "args \<in> set (transport_calls (fst (complete_chat_stream_async self acreate msgs request_settings)))"
    then have "args \<in> set (transport_calls (fst (send_chat_request self acreate msgs request_settings True)))"
      by (simp add: complete_chat_stream_async_effects)
    from send_chat_request_args[OF this] show ?thesis by blast
  next
    assume a: "args \<in> set (transport_calls (fst (complete_async self acreate prompt text_settings)))"
    then obtain cs where "text_settings = Some cs"
      by (cases text_settings) (simp_all add: complete_async_effects no_effects_def)
    with a have "args \<in> set (transport_calls (fst (send_chat_request self acreate
        [(''user'', prompt)] (Some (carried_over cs)) False)))"
      by (simp add: complete_async_effects)
    from send_chat_request_args[OF this] show ?thesis by blast
  next
    assume a: "args \<in> set (transport_calls (fst (complete_stream_async self acreate prompt text_settings)))"
    then obtain cs where "text_settings = Some cs"
      by (cases text_settings) (simp_all add: complete_stream_async_effects no_effects_def)
    with a have "args \<in> set (transport_calls (fst (send_chat_request self acreate
        [(''user'', prompt)] (Some (carried_over cs)) True)))"
      by (simp add: complete_stream_async_effects)
    from send_chat_request_args[OF this] show ?thesis by blast
  qed
  then show "model_args args =
     (if OpenAIChatCompletionBase.api_type self = ''azure'' \<or>
         OpenAIChatCompletionBase.api_type self = ''azure_ad''
      then [''engine'' \<mapsto> model_id self]
      else [''model'' \<mapsto> model_id self])"
    by (auto simp only: chat_request_args_model)
qed

theorem model_key_by_api_type_witness:
  "transport_calls (fst (send_chat_request azure_binding
      (answering [''ok''] :: acreate_args \<Rightarrow> string + string response)
      [(''user'', ''Hello'')] (Some (chat_settings 256 1)) False)) =
     [chat_request_args azure_binding [(''user'', ''Hello'')] (chat_settings 256 1) False] \<and>
   model_args (chat_request_args azure_binding [(''user'', ''Hello'')] (chat_settings 256 1) False) =
     [''engine'' \<mapsto> ''my-deployment''] \<and>
   transport_calls (fst (send_chat_request openai_binding
      (answering [''ok''] :: acreate_args \<Rightarrow> string + string response)
      [(''user'', ''Hello'')] (Some (chat_settings 256 1)) False)) =
     [chat_request_args openai_binding [(''user'', ''Hello'')] (chat_settings 256 1) False] \<and>
   model_args (chat_request_args openai_binding [(''user'', ''Hello'')] (chat_settings 256 1) False) =
     [''model'' \<mapsto> ''gpt-3.5-turbo'']"
proof -
  let ?tr = "answering [''ok''] :: acreate_args \<Rightarrow> string + string response"
  let ?msgs = "[(''user'', ''Hello'')]"
  let ?rs = "chat_settings 256 1"
  have calls:
    "transport_calls (fst (send_chat_request azure_binding ?tr ?msgs (Some ?rs) False)) =
       [chat_request_args azure_binding ?msgs ?rs False]"
    "transport_calls (fst (send_chat_request openai_binding ?tr ?msgs (Some ?rs) False)) =
       [chat_request_args openai_binding ?msgs ?rs False]"
    by (simp_all add: send_chat_request_def capture_usage_def answering_def chat_settings_def)
  from model_key_by_api_type
         [of "chat_request_args azure_binding ?msgs ?rs False" azure_binding ?tr ?msgs
             "Some ?rs" False "''Hello''" None]
       calls
  have a: "model_args (chat_request_args azure_binding ?msgs ?rs False) =
      [''engine'' \<mapsto> ''my-deployment'']"
    by (simp add: azure_binding_def)
  from model_key_by_api_type
         [of "chat_request_args openai_binding ?msgs ?rs False" openai_binding ?tr ?msgs
             "Some ?rs" False "''Hello''" None]
       calls
  have b: "model_args (chat_request_args openai_binding ?msgs ?rs False) =
      [''model'' \<mapsto> ''gpt-3.5-turbo'']"
    by (simp add: openai_binding_def)
  from calls a b show ?thesis by simp
qed

section \<open>Text completion through chat completion\<close>

text \<open>
  C8. For every prompt and every text-completion settings object, completeText is
  completeChat on the one-message conversation \<open>[("user", prompt)]\<close> with the chat
  settings that carry temperature, top_p, presence_penalty, frequency_penalty,
  max_tokens, number_of_responses, token_selection_biases and stop_sequences over field
  for field, and the streaming variant is the streaming chat operation on the same
  conversation and settings. The transport call, issued whenever \<open>max_tokens\<close> is at
  least 1, has exactly the message with role user and the prompt as content, and the
  carried values as its parameters.
\<close>

theorem complete_text_delegates:
  fixes acreate :: "acreate_args \<Rightarrow> 'e + 'e response"
  shows
  "complete_async self acreate prompt (Some cs) =
     complete_chat_async self acreate [(''user'', prompt)] (Some (carried_over cs)) \<and>
   complete_stream_async self acreate prompt (Some cs) =
     complete_chat_stream_async self acreate [(''user'', prompt)] (Some (carried_over cs)) \<and>
   (1 \<le> CompleteRequestSettings.max_tokens cs \<longrightarrow>
      (\<exists>args. transport_calls (fst (complete_async self acreate prompt (Some cs))) = [args]) \<and>
      (\<exists>args. transport_calls (fst (complete_stream_async self acreate prompt (Some cs))) = [args])) \<and>
   (args \<in> set (transport_calls (fst (complete_async self acreate prompt (Some cs)))) \<or>
    args \<in> set (transport_calls (fst (complete_stream_async self acreate prompt (Some cs)))) \<longrightarrow>
      messages args = [[''role'' \<mapsto> ''user'', ''content'' \<mapsto> prompt]] \<and>
      acreate_args.temperature args = CompleteRequestSettings.temperature cs \<and>
      acreate_args.top_p args = CompleteRequestSettings.top_p cs \<and>
      acreate_args.presence_penalty args = CompleteRequestSettings.presence_penalty cs \<and>
      acreate_args.frequency_penalty args = CompleteRequestSettings.frequency_penalty cs \<and>
      acreate_args.max_tokens args = CompleteRequestSettings.max_tokens cs \<and>
      n args = CompleteRequestSettings.number_of_responses cs \<and>
      logit_bias args =
        (case CompleteRequestSettings.token_selection_biases cs of
           None \<Rightarrow> [] | Some bs \<Rightarrow> bs) \<and>
      stop args =
        (case CompleteRequestSettings.stop_sequences cs of
           None \<Rightarrow> None | Some ss \<Rightarrow> if ss = [] then None else Some ss))"
proof (intro conjI impI)
  show "complete_async self acreate prompt (Some cs) =
     complete_chat_async self acreate [(''user'', prompt)] (Some (carried_over cs))"
    by (rule complete_async_as_chat)
  show "complete_stream_async self acreate prompt (Some cs) =
     complete_chat_stream_async self acreate [(''user'', prompt)] (Some (carried_over cs))"
    by (rule complete_stream_async_as_chat)
next
  assume "1 \<le> CompleteRequestSettings.max_tokens cs"
  then have ok: "1 \<le> ChatRequestSettings.max_tokens (carried_over cs)"
    by (simp add: carried_over_def)
  from send_chat_request_passes[OF ok, of "[(''user'', prompt)]" self acreate False]
  show "\<exists>args. transport_calls (fst (complete_async self acreate prompt (Some cs))) = [args]"
    by (simp add: complete_async_effects)
  from send_chat_request_passes[OF ok, of "[(''user'', prompt)]" self acreate True]
  show "\<exists>args. transport_calls (fst (complete_stream_async self acreate prompt (Some cs))) = [args]"
    by (simp add: complete_stream_async_effects)
next
  assume "args \<in> set (transport_calls (fst (complete_async self acreate prompt (Some cs)))) \<or>
    args \<in> set (transport_calls (fst (complete_stream_async self acreate prompt (Some cs))))"
  then have "\<exists>strm. args \<in> set (transport_calls (fst (send_chat_request self acreate
                [(''user'', prompt)] (Some (carried_over cs)) strm)))"
    by (auto simp: complete_async_effects complete_stream_async_effects)
  then obtain strm where
    "args \<in> set (transport_calls (fst (send_chat_request self acreate
                [(''user'', prompt)] (Some (carried_over cs)) strm)))"
    by blast
  from send_chat_request_args[OF this]
  have args: "args = chat_request_args self [(''user'', prompt)] (carried_over cs) strm"
    by simp
  show "messages args = [[''role'' \<mapsto> ''user'', ''content'' \<mapsto> prompt]]"
    and "acreate_args.temperature args = CompleteRequestSettings.temperature cs"
    and "acreate_args.top_p args = CompleteRequestSettings.top_p cs"
    and "acreate_args.presence_penalty args = CompleteRequestSettings.presence_penalty cs"
    and "acreate_args.frequency_penalty args = CompleteRequestSettings.frequency_penalty cs"
    and "acreate_args.max_tokens args = CompleteRequestSettings.max_tokens cs"
    and "n args = CompleteRequestSettings.number_of_responses cs"
    and "logit_bias args =
        (case CompleteRequestSettings.token_selection_biases cs of
           None \<Rightarrow> [] | Some bs \<Rightarrow> bs)"
    and "stop args =
        (case CompleteRequestSettings.stop_sequences cs of
           None \<Rightarrow> None | Some ss \<Rightarrow> if ss = [] then None else Some ss)"
    unfolding args by (simp_all add: chat_request_args_fields carried_over_def)
qed

theorem complete_text_delegates_witness:
  "transport_calls (fst (complete_async openai_binding
      (answering [''ok''] :: acreate_args \<Rightarrow> string + string response) ''Hello''
      (Some (complete_settings 256 1)))) =
     [chat_request_args openai_binding [(''user'', ''Hello'')]
        (carried_over (complete_settings 256 1)) False] \<and>
   messages (chat_request_args openai_binding [(''user'', ''Hello'')]
        (carried_over (complete_settings 256 1)) False) =
     [[''role'' \<mapsto> ''user'', ''content'' \<mapsto> ''Hello'']] \<and>
   acreate_args.max_tokens (chat_request_args openai_binding [(''user'', ''Hello'')]
        (carried_over (complete_settings 256 1)) False) = 256 \<and>
   n (chat_request_args openai_binding [(''user'', ''Hello'')]
        (carried_over (complete_settings 256 1)) False) = 1 \<and>
   complete_async openai_binding
      (answering [''ok''] :: acreate_args \<Rightarrow> string + string response) ''Hello''
      (Some (complete_settings 256 1)) =
   complete_chat_async openai_binding (answering [''ok'']) [(''user'', ''Hello'')]
      (Some (carried_over (complete_settings 256 1)))"
proof -
  let ?tr = "answering [''ok''] :: acreate_args \<Rightarrow> string + string response"
  let ?cs = "complete_settings 256 1"
  let ?args = "chat_request_args openai_binding [(''user'', ''Hello'')] (carried_over ?cs) False"
  have calls: "transport_calls (fst (complete_async openai_binding ?tr ''Hello'' (Some ?cs))) =
      [?args]"
    by (simp add: complete_async_def send_chat_request_def capture_usage_def from_completion_config_def
          carried_over_def answering_def complete_settings_def)
  have tokens: "CompleteRequestSettings.max_tokens ?cs = 256"
    "CompleteRequestSettings.number_of_responses ?cs = 1"
    by (simp_all add: complete_settings_def)
  from complete_text_delegates[of openai_binding ?tr "''Hello''" ?cs ?args] calls tokens
  show ?thesis by simp
qed

section \<open>The caller's dictionary\<close>

text \<open>
  C5, as the specification states it: building the binding with \<open>from_dict\<close> has no
  side effect beyond storing fields on the new object, so the caller's dictionary is
  left unchanged by every call. The code translates the legacy key on the caller's
  dictionary itself: a dictionary that holds \<open>api_type\<close> comes back with \<open>ad_auth\<close>
  set and \<open>api_type\<close> deleted.
\<close>

theorem from_dict_counterexample:
  "fst (from_dict legacy_settings
          :: (string \<rightharpoonup> pyvalue) \<times> (string error + AzureChatCompletion)) \<noteq> legacy_settings \<and>
   fst (from_dict legacy_settings
          :: (string \<rightharpoonup> pyvalue) \<times> (string error + AzureChatCompletion)) ''api_type'' = None \<and>
   legacy_settings ''api_type'' = Some (PyStr ''azure_ad'') \<and>
   fst (from_dict legacy_settings
          :: (string \<rightharpoonup> pyvalue) \<times> (string error + AzureChatCompletion)) ''ad_auth'' =
     Some (PyBool True) \<and>
   legacy_settings ''ad_auth'' = None"
proof -
  have a: "legacy_settings ''api_type'' = Some (PyStr ''azure_ad'')"
    and b: "legacy_settings ''ad_auth'' = None"
    by (simp_all add: legacy_settings_def)
  have c: "fst (from_dict legacy_settings
          :: (string \<rightharpoonup> pyvalue) \<times> (string error + AzureChatCompletion)) ''api_type'' = None"
    and d: "fst (from_dict legacy_settings
          :: (string \<rightharpoonup> pyvalue) \<times> (string error + AzureChatCompletion)) ''ad_auth'' =
       Some (PyBool True)"
    by (simp_all add: from_dict_settings a)
  from a c have "fst (from_dict legacy_settings
          :: (string \<rightharpoonup> pyvalue) \<times> (string error + AzureChatCompletion)) \<noteq> legacy_settings"
    by (metis option.distinct(1))
  with a b c d show ?thesis by simp
qed

text \<open>
  C5, amended: \<open>from_dict\<close> leaves the caller's dictionary unchanged exactly when the
  dictionary has no key \<open>api_type\<close>. When it has one, \<open>from_dict\<close> rewrites the
  caller's dictionary in place: \<open>ad_auth\<close> is set to whether the value of
  \<open>api_type\<close> is \<open>azure_ad\<close> and \<open>api_type\<close> is deleted; the object built
  from a dictionary that holds the three required keys stores that flag with the
  deployment name, the endpoint and the key.
\<close>

theorem from_dict_rewrites_settings:
  "((fst (from_dict settings :: (string \<rightharpoonup> pyvalue) \<times> ('e error + AzureChatCompletion)) =
       settings) \<longleftrightarrow> settings ''api_type'' = None) \<and>
   (\<forall>t. settings ''api_type'' = Some t \<longrightarrow>
      fst (from_dict settings :: (string \<rightharpoonup> pyvalue) \<times> ('e error + AzureChatCompletion)) =
        (settings(''ad_auth'' \<mapsto> PyBool (t = PyStr ''azure_ad'')))(''api_type'' := None)) \<and>
   (\<forall>t dn ep key.
      settings ''api_type'' = Some t \<and> settings ''deployment_name'' = Some dn \<and>
      settings ''endpoint'' = Some ep \<and> settings ''api_key'' = Some key \<longrightarrow>
      (\<exists>obj. snd (from_dict settings) = (Inr obj :: 'e error + AzureChatCompletion) \<and>
             ad_auth obj = PyBool (t = PyStr ''azure_ad'') \<and>
             deployment_name obj = dn \<and> AzureChatCompletion.endpoint obj = ep \<and>
             AzureChatCompletion.api_key obj = key))"
proof (intro conjI allI impI)
  show "(fst (from_dict settings :: (string \<rightharpoonup> pyvalue) \<times> ('e error + AzureChatCompletion)) =
       settings) \<longleftrightarrow> settings ''api_type'' = None"
  proof (cases "settings ''api_type''")
    case None
    then show ?thesis by (simp add: from_dict_settings)
  next
    case (Some t)
    then have "fst (from_dict settings
        :: (string \<rightharpoonup> pyvalue) \<times> ('e error + AzureChatCompletion)) ''api_type'' = None"
      by (simp add: from_dict_settings)
    with Some have "fst (from_dict settings
        :: (string \<rightharpoonup> pyvalue) \<times> ('e error + AzureChatCompletion)) \<noteq> settings"
      by (metis option.distinct(1))
    with Some show ?thesis by simp
  qed
next
  fix t assume "settings ''api_type'' = Some t"
  then show "fst (from_dict settings :: (string \<rightharpoonup> pyvalue) \<times> ('e error + AzureChatCompletion)) =
        (settings(''ad_auth'' \<mapsto> PyBool (t = PyStr ''azure_ad'')))(''api_type'' := None)"
    by (simp add: from_dict_settings)
next
  fix t dn ep key
  assume "settings ''api_type'' = Some t \<and> settings ''deployment_name'' = Some dn \<and>
      settings ''endpoint'' = Some ep \<and> settings ''api_key'' = Some key"
  then show "\<exists>obj. snd (from_dict settings) = (Inr obj :: 'e error + AzureChatCompletion) \<and>
             ad_auth obj = PyBool (t = PyStr ''azure_ad'') \<and>
             deployment_name obj = dn \<and> AzureChatCompletion.endpoint obj = ep \<and>
             AzureChatCompletion.api_key obj = key"
    by (simp add: from_dict_def AzureChatCompletion_init_def)
qed

theorem from_dict_rewrites_settings_witness:
  "fst (from_dict plain_settings
          :: (string \<rightharpoonup> pyvalue) \<times> (string error + AzureChatCompletion)) = plain_settings \<and>
   fst (from_dict legacy_settings
          :: (string \<rightharpoonup> pyvalue) \<times> (string error + AzureChatCompletion)) =
     plain_settings(''ad_auth'' \<mapsto> PyBool True) \<and>
   (\<exists>obj. snd (from_dict legacy_settings) = (Inr obj :: string error + AzureChatCompletion) \<and>
          ad_auth obj = PyBool True \<and> deployment_name obj = PyStr ''my-deployment'')"
proof -
  have plain: "plain_settings ''api_type'' = None"
    by (simp add: plain_settings_def)
  have legacy: "legacy_settings ''api_type'' = Some (PyStr ''azure_ad'')"
    "legacy_settings ''deployment_name'' = Some (PyStr ''my-deployment'')"
    "legacy_settings ''endpoint'' = Some (PyStr ''https://example.openai.azure.com'')"
    "legacy_settings ''api_key'' = Some (PyStr ''az-key'')"
    by (simp_all add: legacy_settings_def)
  have upd: "(legacy_settings(''ad_auth'' \<mapsto> PyBool True))(''api_type'' := None) =
      plain_settings(''ad_auth'' \<mapsto> PyBool True)"
    by (auto simp: legacy_settings_def plain_settings_def fun_eq_iff)
  from from_dict_rewrites_settings[of plain_settings, where ?'e = string] plain
  have a: "fst (from_dict plain_settings
          :: (string \<rightharpoonup> pyvalue) \<times> (string error + AzureChatCompletion)) = plain_settings"
    by simp
  from from_dict_rewrites_settings[of legacy_settings, where ?'e = string] legacy upd
  have b: "fst (from_dict legacy_settings
          :: (string \<rightharpoonup> pyvalue) \<times> (string error + AzureChatCompletion)) =
     plain_settings(''ad_auth'' \<mapsto> PyBool True)"
    and c: "\<exists>obj. snd (from_dict legacy_settings) = (Inr obj :: string error + AzureChatCompletion) \<and>
          ad_auth obj = PyBool True \<and> deployment_name obj = PyStr ''my-deployment''"
    by auto
  from a b c show ?thesis by simp
qed

end
